theory Spec2Isabelle
  imports Complex_Main "HOL-Library.Product_Lexorder" "HOL-Library.Word"
begin

section \<open>Shape, form and roughness descriptors of pySHAPE\<close>

text \<open>
  Python floats are modelled as real numbers.  Every \<open>raise ValueError(...)\<close> of the
  source is a constructor of \<open>error\<close> named after the error class under which the
  specification files that raise; a true division whose divisor is zero raises Python's
  \<open>ZeroDivisionError\<close>.
\<close>

datatype error =
    DomainError
  | ValidationError
  | DegenerateGeometryError
  | FormatError
  | ZeroDivisionError

definition py_truediv :: "real \<Rightarrow> real \<Rightarrow> error + real" where
  \<comment> \<open>\<open>a / b\<close> on two Python floats\<close>
  "py_truediv a b = (if b = 0 then Inl ZeroDivisionError else Inr (a / b))"

subsection \<open>form.py: scalar form descriptors\<close>

definition convexity :: "real \<Rightarrow> real \<Rightarrow> error + real" where
  "convexity volume volume_convex_hull =
     (if volume_convex_hull \<le> 0 then Inl DomainError
      else if volume < 0 then Inl DomainError
      else py_truediv volume volume_convex_hull)"

definition sphericity_wadell :: "real \<Rightarrow> real \<Rightarrow> error + real" where
  "sphericity_wadell volume surface_area =
     (if volume < 0 then Inl DomainError
      else if surface_area \<le> 0 then Inl DomainError
      else py_truediv (6 * volume) (((6 * volume / pi) powr (1 / 3)) * surface_area))"

subsection \<open>Vectors, matrices and index arrays\<close>

type_synonym vec3 = "real \<times> real \<times> real"

text \<open>A 3x3 matrix is the triple of its rows.\<close>

type_synonym mat3 = "vec3 \<times> vec3 \<times> vec3"

fun vadd :: "vec3 \<Rightarrow> vec3 \<Rightarrow> vec3" where
  "vadd (a1, a2, a3) (b1, b2, b3) = (a1 + b1, a2 + b2, a3 + b3)"

fun vsub :: "vec3 \<Rightarrow> vec3 \<Rightarrow> vec3" where
  "vsub (a1, a2, a3) (b1, b2, b3) = (a1 - b1, a2 - b2, a3 - b3)"

fun vscale :: "real \<Rightarrow> vec3 \<Rightarrow> vec3" where
  "vscale s (a1, a2, a3) = (s * a1, s * a2, s * a3)"

fun vdiv :: "vec3 \<Rightarrow> real \<Rightarrow> vec3" where
  "vdiv (a1, a2, a3) s = (a1 / s, a2 / s, a3 / s)"

fun dot :: "vec3 \<Rightarrow> vec3 \<Rightarrow> real" where
  "dot (a1, a2, a3) (b1, b2, b3) = a1 * b1 + a2 * b2 + a3 * b3"

fun cross :: "vec3 \<Rightarrow> vec3 \<Rightarrow> vec3" where
  \<comment> \<open>\<open>np.cross\<close> on rows of length 3\<close>
  "cross (a1, a2, a3) (b1, b2, b3) = (a2 * b3 - a3 * b2, a3 * b1 - a1 * b3, a1 * b2 - a2 * b1)"

fun norm3 :: "vec3 \<Rightarrow> real" where
  \<comment> \<open>\<open>np.linalg.norm(v, axis=1)\<close> on one row\<close>
  "norm3 (a1, a2, a3) = sqrt (a1 * a1 + a2 * a2 + a3 * a3)"

definition vzero :: vec3 where
  "vzero = (0, 0, 0)"

definition mzero :: mat3 where
  "mzero = (vzero, vzero, vzero)"

fun madd :: "mat3 \<Rightarrow> mat3 \<Rightarrow> mat3" where
  "madd (r1, r2, r3) (s1, s2, s3) = (vadd r1 s1, vadd r2 s2, vadd r3 s3)"

fun mscale :: "real \<Rightarrow> mat3 \<Rightarrow> mat3" where
  "mscale s (r1, r2, r3) = (vscale s r1, vscale s r2, vscale s r3)"

fun mdiv :: "mat3 \<Rightarrow> real \<Rightarrow> mat3" where
  "mdiv (r1, r2, r3) s = (vdiv r1 s, vdiv r2 s, vdiv r3 s)"

fun outer :: "vec3 \<Rightarrow> mat3" where
  \<comment> \<open>\<open>nk @ nk.T\<close> for a column vector \<open>nk\<close>\<close>
  "outer (a1, a2, a3) =
     ((a1 * a1, a1 * a2, a1 * a3), (a2 * a1, a2 * a2, a2 * a3), (a3 * a1, a3 * a2, a3 * a3))"

fun trace3 :: "mat3 \<Rightarrow> real" where
  "trace3 ((a11, a12, a13), (a21, a22, a23), (a31, a32, a33)) = a11 + a22 + a33"

fun det3 :: "mat3 \<Rightarrow> real" where
  "det3 ((a11, a12, a13), (a21, a22, a23), (a31, a32, a33)) =
     a11 * (a22 * a33 - a23 * a32) - a12 * (a21 * a33 - a23 * a31)
       + a13 * (a21 * a32 - a22 * a31)"

definition ident3 :: mat3 where
  "ident3 = ((1, 0, 0), (0, 1, 0), (0, 0, 1))"

text \<open>
  An index array of the source (\<open>faces\<close>, \<open>elements\<close>) is a list of rows of Python ints;
  the shape checks \<open>(M, 3)\<close> and \<open>(M, 4)\<close> are the row types.  \<open>arr_min\<close> and \<open>arr_max\<close>
  are \<open>.min()\<close> and \<open>.max()\<close> over all entries; the source only calls them behind
  \<open>faces.size and ...\<close>, that is on a non-empty array.
\<close>

type_synonym face = "int \<times> int \<times> int"
type_synonym element = "int \<times> int \<times> int \<times> int"

definition arr_min :: "int list \<Rightarrow> int" where
  "arr_min xs = fold min (tl xs) (hd xs)"

definition arr_max :: "int list \<Rightarrow> int" where
  "arr_max xs = fold max (tl xs) (hd xs)"

fun face_entries :: "face \<Rightarrow> int list" where
  "face_entries (i, j, k) = [i, j, k]"

fun element_entries :: "element \<Rightarrow> int list" where
  "element_entries (i, j, k, l) = [i, j, k, l]"

fun face_minus_1 :: "face \<Rightarrow> face" where
  "face_minus_1 (i, j, k) = (i - 1, j - 1, k - 1)"

fun element_minus_1 :: "element \<Rightarrow> element" where
  "element_minus_1 (i, j, k, l) = (i - 1, j - 1, k - 1, l - 1)"

definition is_one_based :: "nat \<Rightarrow> int list \<Rightarrow> bool" where
  \<comment> \<open>\<open>faces.size and faces.min() == 1 and faces.max() == nodes.shape[0]\<close>\<close>
  "is_one_based n entries \<longleftrightarrow> entries \<noteq> [] \<and> arr_min entries = 1 \<and> arr_max entries = int n"

definition out_of_range :: "nat \<Rightarrow> int list \<Rightarrow> bool" where
  \<comment> \<open>\<open>faces.size and (faces.min() < 0 or faces.max() >= nodes.shape[0])\<close>\<close>
  "out_of_range n entries \<longleftrightarrow> entries \<noteq> [] \<and> (arr_min entries < 0 \<or> arr_max entries \<ge> int n)"

definition convert_faces :: "nat \<Rightarrow> face list \<Rightarrow> face list" where
  "convert_faces n faces =
     (if is_one_based n (concat (map face_entries faces)) then map face_minus_1 faces else faces)"

definition convert_elements :: "nat \<Rightarrow> element list \<Rightarrow> element list" where
  "convert_elements n elements =
     (if is_one_based n (concat (map element_entries elements))
      then map element_minus_1 elements else elements)"

subsection \<open>geometry.py: surface area\<close>

fun tri_area :: "vec3 list \<Rightarrow> face \<Rightarrow> real" where
  "tri_area nodes (i, j, k) =
     (let v1 = vsub (nodes ! nat j) (nodes ! nat i);
          v2 = vsub (nodes ! nat k) (nodes ! nat i);
          cross_prod = cross v1 v2
      in 0.5 * norm3 cross_prod)"

definition surface_area :: "vec3 list \<Rightarrow> face list \<Rightarrow> error + real" where
  "surface_area nodes faces0 =
     (let faces = convert_faces (length nodes) faces0
      in if out_of_range (length nodes) (concat (map face_entries faces))
         then Inl ValidationError
         else Inr (sum_list (map (tri_area nodes) faces)))"

subsection \<open>geometry.py: volume, centroid and inertia tensor of a tetrahedral mesh\<close>

fun cx :: "vec3 \<Rightarrow> real" where "cx (x, y, z) = x"
fun cy :: "vec3 \<Rightarrow> real" where "cy (x, y, z) = y"
fun cz :: "vec3 \<Rightarrow> real" where "cz (x, y, z) = z"

definition vsum :: "vec3 list \<Rightarrow> vec3" where
  \<comment> \<open>\<open>.sum(axis=0)\<close> of an array of rows\<close>
  "vsum rows = foldr vadd rows vzero"

fun tet_volume :: "vec3 list \<Rightarrow> element \<Rightarrow> real" where
  \<comment> \<open>one entry of \<open>v = |einsum('ij,ij->i', cross(bd, cd), ad)| / 6\<close>\<close>
  "tet_volume nodes (i, j, k, l) =
     (let a = nodes ! nat i; b = nodes ! nat j; c = nodes ! nat k; d = nodes ! nat l;
          ad = vsub a d; bd = vsub b d; cd = vsub c d
      in \<bar>dot (cross bd cd) ad\<bar> / 6)"

fun tet_centroid :: "vec3 list \<Rightarrow> element \<Rightarrow> vec3" where
  \<comment> \<open>one row of \<open>tet_centroids = (a + b + c + d) / 4\<close>\<close>
  "tet_centroid nodes (i, j, k, l) =
     (let a = nodes ! nat i; b = nodes ! nat j; c = nodes ! nat k; d = nodes ! nat l
      in vdiv (vadd (vadd (vadd a b) c) d) 4)"

definition tet_inertia :: "vec3 list \<Rightarrow> element \<Rightarrow> real \<Rightarrow> real \<times> real \<times> real \<times> real \<times> real \<times> real" where
  \<comment> \<open>one entry of each of \<open>Ixx_t, Iyy_t, Izz_t, Ixy_t, Ixz_t, Iyz_t\<close>, for a tetrahedron of
      volume \<open>vt\<close> over the centred nodes\<close>
  "tet_inertia nodes_c e vt =
     (case e of (i, j, k, l) \<Rightarrow>
      let a = nodes_c ! nat i; b = nodes_c ! nat j; c = nodes_c ! nat k; d = nodes_c ! nat l;
          x = [cx a, cx b, cx c, cx d];
          y = [cy a, cy b, cy c, cy d];
          z = [cz a, cz b, cz c, cz d];
          Sx = sum_list x; Sy = sum_list y; Sz = sum_list z;
          Sxx = sum_list (map2 (*) x x);
          Syy = sum_list (map2 (*) y y);
          Szz = sum_list (map2 (*) z z);
          Sxy = sum_list (map2 (*) x y);
          Sxz = sum_list (map2 (*) x z);
          Syz = sum_list (map2 (*) y z);
          coef = vt / 20
      in (coef * (Sy * Sy + Syy + Sz * Sz + Szz),
          coef * (Sx * Sx + Sxx + Sz * Sz + Szz),
          coef * (Sx * Sx + Sxx + Sy * Sy + Syy),
          coef * (Sx * Sy + Sxy),
          coef * (Sx * Sz + Sxz),
          coef * (Sy * Sz + Syz)))"

fun diag3 :: "vec3 \<Rightarrow> mat3" where
  \<comment> \<open>\<open>np.diag(evals)\<close>\<close>
  "diag3 (e1, e2, e3) = ((e1, 0, 0), (0, e2, 0), (0, 0, e3))"

text \<open>
  The result tuple \<open>(volume, centroid, current_inertia, inertia_diag, evecs)\<close>.
  \<open>np.linalg.eigh\<close> is a parameter: it maps a symmetric matrix to its eigenvalues and
  the matrix of its eigenvectors.
\<close>

type_synonym inertia_result = "real \<times> vec3 \<times> mat3 \<times> mat3 \<times> mat3"

definition volume_centroid_inertia_tensor ::
  "(mat3 \<Rightarrow> vec3 \<times> mat3) \<Rightarrow> vec3 list \<Rightarrow> element list \<Rightarrow> bool \<Rightarrow> error + inertia_result" where
  "volume_centroid_inertia_tensor eigh nodes elements0 calculate_inertia =
     (let elements = convert_elements (length nodes) elements0
      in if out_of_range (length nodes) (concat (map element_entries elements))
         then Inl ValidationError
         else
           let v = map (tet_volume nodes) elements;
               volume = sum_list v
           in if volume \<le> 0 then Inl DegenerateGeometryError
              else
                let tet_centroids = map (tet_centroid nodes) elements;
                    centroid = vdiv (vsum (map2 vscale v tet_centroids)) volume
                in if \<not> calculate_inertia then Inr (volume, centroid, mzero, mzero, mzero)
                   else
                     let nodes_c = map (\<lambda>p. vsub p centroid) nodes;
                         terms = map2 (tet_inertia nodes_c) elements v;
                         Ixx = sum_list (map (\<lambda>(xx, yy, zz, xy, xz, yz). xx) terms);
                         Iyy = sum_list (map (\<lambda>(xx, yy, zz, xy, xz, yz). yy) terms);
                         Izz = sum_list (map (\<lambda>(xx, yy, zz, xy, xz, yz). zz) terms);
                         Ixy = sum_list (map (\<lambda>(xx, yy, zz, xy, xz, yz). xy) terms);
                         Ixz = sum_list (map (\<lambda>(xx, yy, zz, xy, xz, yz). xz) terms);
                         Iyz = sum_list (map (\<lambda>(xx, yy, zz, xy, xz, yz). yz) terms);
                         current_inertia =
                           ((Ixx, - Ixy, - Ixz), (- Ixy, Iyy, - Iyz), (- Ixz, - Iyz, Izz));
                         eig = eigh current_inertia
                     in Inr (volume, centroid, current_inertia, diag3 (fst eig), snd eig))"

definition volume_and_centroid :: "error + inertia_result \<Rightarrow> error + real \<times> vec3" where
  \<comment> \<open>the first two components of a result, as the tests read them\<close>
  "volume_and_centroid r = map_sum id (\<lambda>(volume, centroid, rest). (volume, centroid)) r"

subsection \<open>form.py: surface orientation tensor\<close>

definition tri_vector :: "vec3 list \<Rightarrow> face \<Rightarrow> vec3" where
  \<comment> \<open>one row of \<open>v = np.cross(e_AB, e_BC)\<close>\<close>
  "tri_vector nodes f =
     (case f of (i, j, k) \<Rightarrow>
      let A = nodes ! nat i; B = nodes ! nat j; Cn = nodes ! nat k;
          e_AB = vsub B A;
          e_BC = vsub Cn B
      in cross e_AB e_BC)"

definition unit_normal :: "vec3 \<Rightarrow> real \<Rightarrow> vec3" where
  \<comment> \<open>one row of \<open>np.divide(v, norms[:, None], out=np.zeros_like(v), where=norms[:, None] > 0)\<close>\<close>
  "unit_normal v nrm = (if nrm > 0 then vdiv v nrm else vzero)"

definition tri_areas :: "vec3 list \<Rightarrow> face list \<Rightarrow> real list" where
  \<comment> \<open>\<open>areas = 0.5 * np.linalg.norm(v, axis=1)\<close>\<close>
  "tri_areas nodes faces = map (\<lambda>v. 0.5 * norm3 v) (map (tri_vector nodes) faces)"

definition tri_normals :: "vec3 list \<Rightarrow> face list \<Rightarrow> vec3 list" where
  "tri_normals nodes faces =
     (let v = map (tri_vector nodes) faces;
          norms = map norm3 v
      in map2 unit_normal v norms)"

definition orientation_tensor :: "vec3 list \<Rightarrow> face list \<Rightarrow> mat3" where
  \<comment> \<open>the loop \<open>f += areas[k] * (nk @ nk.T)\<close> over \<open>range(n.shape[0])\<close>, then
      \<open>f /= total_area\<close>; \<open>faces\<close> are 0-based here\<close>
  "orientation_tensor nodes faces =
     (let areas = tri_areas nodes faces;
          n = tri_normals nodes faces;
          total_area = sum_list areas;
          f = fold (\<lambda>k f. madd f (mscale (areas ! k) (outer (n ! k)))) [0..<length n] mzero
      in mdiv f total_area)"

definition vnth :: "vec3 \<Rightarrow> nat \<Rightarrow> real" where
  "vnth v i = [cx v, cy v, cz v] ! i"

definition take_columns :: "mat3 \<Rightarrow> nat list \<Rightarrow> mat3" where
  \<comment> \<open>\<open>vecs[:, order]\<close> for an index list \<open>order\<close> of length 3\<close>
  "take_columns m order =
     (case m of (r1, r2, r3) \<Rightarrow>
        ((vnth r1 (order ! 0), vnth r1 (order ! 1), vnth r1 (order ! 2)),
         (vnth r2 (order ! 0), vnth r2 (order ! 1), vnth r2 (order ! 2)),
         (vnth r3 (order ! 0), vnth r3 (order ! 1), vnth r3 (order ! 2))))"

text \<open>
  The result tuple \<open>(C, F, R, eigen_values, eigen_vectors)\<close>.  \<open>np.linalg.eig\<close> is a
  parameter \<open>eig\<close>, from the tensor to its three eigenvalues and the matrix whose columns
  are the eigenvectors; \<open>np.argsort\<close> sorts the three indices by ascending value.
\<close>

type_synonym orientation_result = "real \<times> real \<times> real \<times> vec3 \<times> mat3"

definition surface_orientation_tensor ::
  "(mat3 \<Rightarrow> vec3 \<times> mat3) \<Rightarrow> vec3 list \<Rightarrow> face list \<Rightarrow> error + orientation_result" where
  "surface_orientation_tensor eig nodes faces0 =
     (let faces = convert_faces (length nodes) faces0
      in if out_of_range (length nodes) (concat (map face_entries faces))
         then Inl ValidationError
         else
           let total_area = sum_list (tri_areas nodes faces)
           in if total_area \<le> 0 then Inl DegenerateGeometryError
              else
                let f = orientation_tensor nodes faces;
                    vals = fst (eig f);
                    vecs = snd (eig f);
                    order = rev (sort_key (vnth vals) [0, 1, 2]);
                    eigen_values = map (vnth vals) order;
                    eigen_vectors = take_columns vecs order;
                    f1 = eigen_values ! 0;
                    f2 = eigen_values ! 1;
                    f3 = eigen_values ! 2
                in if f1 \<le> 0 then Inl DegenerateGeometryError
                   else Inr (f3 / f1, (f1 - f2) / f1, (f2 - f3) / f1, (f1, f2, f3), eigen_vectors))"

definition is_spectrum :: "mat3 \<Rightarrow> vec3 \<Rightarrow> bool" where
  \<comment> \<open>the three values are the roots, with multiplicity, of the characteristic polynomial
      of the matrix: what a correct eigen-solver returns\<close>
  "is_spectrum m vals \<longleftrightarrow>
     (\<forall>x. det3 (madd m (mscale (- x) ident3)) = (cx vals - x) * (cy vals - x) * (cz vals - x))"

subsection \<open>roughness.py: statistics of a height field\<close>

text \<open>
  \<open>np.asarray(z, dtype=float)\<close> is an array of reals: its shape and its entries in row-major
  order.  A float result that may be \<open>inf\<close> or \<open>nan\<close> is an \<open>npfloat\<close>.
\<close>

record ndarray =
  shape :: "nat list"
  entries :: "real list"

datatype npfloat = Finite real | PosInf | NaN

definition ndim :: "ndarray \<Rightarrow> nat" where
  "ndim z = length (shape z)"

definition mean :: "real list \<Rightarrow> real" where
  \<comment> \<open>\<open>np.mean\<close> of a non-empty array\<close>
  "mean xs = sum_list xs / real (length xs)"

text \<open>
  \<open>np.mean\<close> of an array without entries is \<open>nan\<close> (with a warning, not an exception), and
  \<open>nan\<close> stays \<open>nan\<close> through the arithmetic that follows; the functions below return \<open>NaN\<close>
  at once in this case.
\<close>

definition sq :: "ndarray \<Rightarrow> error + npfloat" where
  "sq z =
     (if ndim z < 1 then Inl ValidationError
      else if entries z = [] then Inr NaN
      else
        let zm = mean (entries z)
        in Inr (Finite (sqrt (mean (map (\<lambda>x. (x - zm) ^ 2) (entries z))))))"

definition sa :: "ndarray \<Rightarrow> error + npfloat" where
  "sa z =
     (if ndim z < 1 then Inl ValidationError
      else if entries z = [] then Inr NaN
      else
        let zm = mean (entries z)
        in Inr (Finite (mean (map (\<lambda>x. \<bar>x - zm\<bar>) (entries z)))))"

definition moment_ratio :: "nat \<Rightarrow> npfloat \<Rightarrow> ndarray \<Rightarrow> npfloat \<Rightarrow> npfloat" where
  \<comment> \<open>the tail shared by \<open>sku\<close> (\<open>p = 4\<close>, sentinel \<open>inf\<close>) and \<open>ssk\<close> (\<open>p = 3\<close>, sentinel
      \<open>nan\<close>): \<open>if sq_value == 0: return sentinel\<close>, then
      \<open>np.mean((z - zm) ** p) / (sq_value ** p)\<close>\<close>
  "moment_ratio p sentinel z sq_value =
     (case sq_value of
        NaN \<Rightarrow> NaN
      | PosInf \<Rightarrow> (if entries z = [] then NaN else Finite 0)
      | Finite s \<Rightarrow>
          if s = 0 then sentinel
          else if entries z = [] then NaN
          else
            let zm = mean (entries z)
            in Finite (mean (map (\<lambda>x. (x - zm) ^ p) (entries z)) / s ^ p))"

definition sku :: "ndarray \<Rightarrow> real option \<Rightarrow> error + npfloat" where
  "sku z sq_value =
     (if ndim z < 1 then Inl ValidationError
      else case sq_value of
        Some s \<Rightarrow> Inr (moment_ratio 4 PosInf z (Finite s))
      | None \<Rightarrow> (case sq z of Inl e \<Rightarrow> Inl e | Inr s \<Rightarrow> Inr (moment_ratio 4 PosInf z s)))"

definition ssk :: "ndarray \<Rightarrow> real option \<Rightarrow> error + npfloat" where
  "ssk z sq_value =
     (if ndim z < 1 then Inl ValidationError
      else case sq_value of
        Some s \<Rightarrow> Inr (moment_ratio 3 NaN z (Finite s))
      | None \<Rightarrow> (case sq z of Inl e \<Rightarrow> Inl e | Inr s \<Rightarrow> Inr (moment_ratio 3 NaN z s)))"

definition grid_rows :: "nat \<Rightarrow> nat \<Rightarrow> real list \<Rightarrow> real list list" where
  \<comment> \<open>the rows of an \<open>(M, N)\<close> array: \<open>Z[i, j]\<close> is entry \<open>i * N + j\<close>\<close>
  "grid_rows M N es = map (\<lambda>i. map (\<lambda>j. es ! (i * N + j)) [0..<N]) [0..<M]"

definition np_diff :: "real list \<Rightarrow> real list" where
  \<comment> \<open>\<open>np.diff(xs, n=1)\<close>: \<open>out[i] = xs[i + 1] - xs[i]\<close>\<close>
  "np_diff xs = map2 (\<lambda>a b. b - a) xs (tl xs)"

definition diff_axis1 :: "real list list \<Rightarrow> real list list" where
  \<comment> \<open>\<open>np.diff(Z, n=1, axis=1)\<close>, shape \<open>(M, N - 1)\<close>\<close>
  "diff_axis1 rows = map np_diff rows"

definition diff_axis0 :: "real list list \<Rightarrow> real list list" where
  \<comment> \<open>\<open>np.diff(Z, n=1, axis=0)\<close>, shape \<open>(M - 1, N)\<close>\<close>
  "diff_axis0 rows = map2 (\<lambda>r r'. map2 (\<lambda>a b. b - a) r r') rows (tl rows)"

definition sum_squares :: "real list list \<Rightarrow> real" where
  \<comment> \<open>\<open>np.sum(D ** 2)\<close>\<close>
  "sum_squares D = sum_list (map (\<lambda>r. sum_list (map (\<lambda>x. x ^ 2) r)) D)"

definition sdq :: "ndarray \<Rightarrow> real \<Rightarrow> real \<Rightarrow> error + real" where
  "sdq z dx dy =
     (if ndim z \<noteq> 2 then Inl ValidationError
      else if dx \<le> 0 \<or> dy \<le> 0 then Inl ValidationError
      else
        let M = shape z ! 0; N = shape z ! 1
        in if M < 2 \<or> N < 2 then Inl ValidationError
           else
             let Z = grid_rows M N (entries z);
                 dZdx = map (map (\<lambda>d. d / dx)) (diff_axis1 Z);
                 dZdy = map (map (\<lambda>d. d / dy)) (diff_axis0 Z);
                 num = sum_squares dZdx + sum_squares dZdy;
                 denom = (M - 1) * (N - 1)
             in Inr (sqrt (num / real denom)))"

subsection \<open>io.py: the built-in STL parser\<close>

text \<open>
  A file is a list of bytes, a triangle array of shape \<open>(T, 3, 3)\<close> a list of triples of
  points.  Three library functions are parameters of the parser: \<open>f32\<close>, the value of four
  little-endian bytes read as an IEEE float32; \<open>utf8\<close>, which is
  \<open>data.decode('utf-8', errors='ignore')\<close>; and \<open>to_float\<close>, Python's \<open>float(token)\<close>, with
  \<open>None\<close> where it raises \<open>ValueError\<close>.  Text is a \<open>string\<close>.
\<close>

type_synonym byte = "8 word"
type_synonym 'c triangle = "('c \<times> 'c \<times> 'c) \<times> ('c \<times> 'c \<times> 'c) \<times> ('c \<times> 'c \<times> 'c)"

definition uint32_le :: "byte list \<Rightarrow> nat \<Rightarrow> nat" where
  \<comment> \<open>\<open>struct.unpack_from('<I', data, offset)[0]\<close>\<close>
  "uint32_le data offset =
     unat (data ! offset) + 256 * unat (data ! (offset + 1))
       + 65536 * unat (data ! (offset + 2)) + 16777216 * unat (data ! (offset + 3))"

definition facet_vertices :: "(byte list \<Rightarrow> 'c) \<Rightarrow> byte list \<Rightarrow> 'c triangle" where
  \<comment> \<open>the field \<open>v\<close> of one 50-byte facet record: 12 bytes of normal, then 3x3 floats, then
      2 bytes of attribute\<close>
  "facet_vertices f32 rec =
     (let fl = (\<lambda>r c. f32 (take 4 (drop (12 + 4 * (3 * r + c)) rec)))
      in ((fl 0 0, fl 0 1, fl 0 2), (fl 1 0, fl 1 1, fl 1 2), (fl 2 0, fl 2 1, fl 2 2)))"

definition parse_stl_binary :: "(byte list \<Rightarrow> 'c) \<Rightarrow> byte list \<Rightarrow> error + 'c triangle list" where
  "parse_stl_binary f32 data =
     (if length data < 84 then Inl FormatError
      else
        let n_tri = uint32_le data 80;
            expect = 84 + 50 * n_tri
        in if length data \<noteq> expect then Inl FormatError
           else Inr (map (\<lambda>k. facet_vertices f32 (take 50 (drop (84 + 50 * k) data))) [0..<n_tri]))"

definition is_space :: "char \<Rightarrow> bool" where
  \<comment> \<open>the whitespace of \<open>str.strip()\<close> and \<open>str.split()\<close>, among the characters of a \<open>string\<close>\<close>
  "is_space c \<longleftrightarrow> of_char c \<in> {9, 10, 11, 12, 13, 28, 29, 30, 31, 32, 133, 160 :: nat}"

definition is_line_break :: "char \<Rightarrow> bool" where
  \<comment> \<open>the line boundaries of \<open>str.splitlines()\<close>, among the characters of a \<open>string\<close>\<close>
  "is_line_break c \<longleftrightarrow> of_char c \<in> {10, 11, 12, 13, 28, 29, 30, 133 :: nat}"

fun lines_from :: "string \<Rightarrow> bool \<Rightarrow> string \<Rightarrow> string list" where
  \<comment> \<open>\<open>after_cr\<close>: the previous character was a carriage return, so a line feed here
      belongs to the same boundary\<close>
  "lines_from cur after_cr [] = (if cur = [] then [] else [cur])"
| "lines_from cur after_cr (c # cs) =
     (if after_cr \<and> of_char c = (10 :: nat) then lines_from cur False cs
      else if is_line_break c then cur # lines_from [] (of_char c = (13 :: nat)) cs
      else lines_from (cur @ [c]) False cs)"

definition splitlines :: "string \<Rightarrow> string list" where
  "splitlines text = lines_from [] False text"

definition strip :: "string \<Rightarrow> string" where
  "strip s = rev (dropWhile is_space (rev (dropWhile is_space s)))"

fun words_from :: "string \<Rightarrow> string \<Rightarrow> string list" where
  "words_from cur [] = (if cur = [] then [] else [cur])"
| "words_from cur (c # cs) =
     (if is_space c then (if cur = [] then words_from [] cs else cur # words_from [] cs)
      else words_from (cur @ [c]) cs)"

definition split :: "string \<Rightarrow> string list" where
  \<comment> \<open>\<open>str.split()\<close> without arguments\<close>
  "split s = words_from [] s"

definition lower_char :: "char \<Rightarrow> char" where
  "lower_char c =
     (if (65 :: nat) \<le> of_char c \<and> of_char c \<le> (90 :: nat) then char_of (of_char c + (32 :: nat))
      else c)"

definition starts_with_vertex :: "string \<Rightarrow> bool" where
  \<comment> \<open>\<open>line.lower().startswith('vertex')\<close>\<close>
  "starts_with_vertex line \<longleftrightarrow> map lower_char (take 6 line) = ''vertex''"

definition vertex_of_parts :: "(string \<Rightarrow> 'c option) \<Rightarrow> string list \<Rightarrow> ('c \<times> 'c \<times> 'c) option" where
  \<comment> \<open>\<open>float(parts[1]), float(parts[2]), float(parts[3])\<close>; \<open>None\<close> when one of them raises\<close>
  "vertex_of_parts to_float parts =
     (case to_float (parts ! 1) of None \<Rightarrow> None
      | Some x \<Rightarrow> (case to_float (parts ! 2) of None \<Rightarrow> None
      | Some y \<Rightarrow> (case to_float (parts ! 3) of None \<Rightarrow> None
      | Some z \<Rightarrow> Some (x, y, z))))"

definition flush :: "'c triangle list \<times> ('c \<times> 'c \<times> 'c) list \<Rightarrow> 'c triangle list \<times> ('c \<times> 'c \<times> 'c) list" where
  \<comment> \<open>\<open>if len(cur) == 3: tris.append(cur); cur = []\<close>\<close>
  "flush st =
     (case st of (tris, cur) \<Rightarrow>
        if length cur = 3 then (tris @ [(cur ! 0, cur ! 1, cur ! 2)], []) else (tris, cur))"

definition ascii_line :: "(string \<Rightarrow> 'c option) \<Rightarrow> string
    \<Rightarrow> 'c triangle list \<times> ('c \<times> 'c \<times> 'c) list \<Rightarrow> 'c triangle list \<times> ('c \<times> 'c \<times> 'c) list" where
  \<comment> \<open>the body of the loop over the lines, on the state \<open>(tris, cur)\<close>\<close>
  "ascii_line to_float raw st =
     (case st of (tris, cur) \<Rightarrow>
        let line = strip raw
        in if line = [] then (tris, cur)
           else if starts_with_vertex line then
             let parts = split line
             in if length parts \<ge> 4 then
                  (case vertex_of_parts to_float parts of
                     None \<Rightarrow> (tris, cur)
                   | Some p \<Rightarrow> flush (tris, cur @ [p]))
                else flush (tris, cur)
           else (tris, cur))"

definition parse_stl_ascii_lines :: "(string \<Rightarrow> 'c option) \<Rightarrow> string list \<Rightarrow> error + 'c triangle list" where
  "parse_stl_ascii_lines to_float ls =
     (let tris = fst (fold (ascii_line to_float) ls ([], []))
      in if tris = [] then Inl FormatError else Inr tris)"

definition parse_stl_ascii :: "(string \<Rightarrow> 'c option) \<Rightarrow> string \<Rightarrow> error + 'c triangle list" where
  "parse_stl_ascii to_float text = parse_stl_ascii_lines to_float (splitlines text)"

definition load_triangles ::
  "(byte list \<Rightarrow> 'c) \<Rightarrow> (byte list \<Rightarrow> string) \<Rightarrow> (string \<Rightarrow> 'c option) \<Rightarrow> byte list
    \<Rightarrow> error + 'c triangle list" where
  \<comment> \<open>the fallback of \<open>load_stl\<close> up to \<open>triangles\<close>: binary first, inside \<open>try\<close>, then text\<close>
  "load_triangles f32 utf8 to_float data =
     (let triangles =
            (if length data \<ge> 84 then
               (case parse_stl_binary f32 data of Inl e \<Rightarrow> None | Inr t \<Rightarrow> Some t)
             else None)
      in case triangles of
           Some t \<Rightarrow> Inr t
         | None \<Rightarrow>
             (case parse_stl_ascii to_float (utf8 data) of
                Inl e \<Rightarrow> Inl FormatError
              | Inr t \<Rightarrow> Inr t))"

subsection \<open>io.py: merging duplicate vertices\<close>

definition rint :: "real \<Rightarrow> int" where
  \<comment> \<open>rounding to the nearest integer, halves to the even neighbour\<close>
  "rint x =
     (let f = \<lfloor>x\<rfloor>; d = x - of_int f
      in if d < 1 / 2 then f
         else if 1 / 2 < d then f + 1
         else if even f then f else f + 1)"

definition np_round :: "int \<Rightarrow> real \<Rightarrow> real" where
  \<comment> \<open>\<open>np.round(x, decimals)\<close>: scale by a power of ten, round, scale back\<close>
  "np_round decimals x =
     (if 0 \<le> decimals
      then of_int (rint (x * 10 ^ nat decimals)) / 10 ^ nat decimals
      else of_int (rint (x / 10 ^ nat (- decimals))) * 10 ^ nat (- decimals))"

fun round_row :: "int \<Rightarrow> vec3 \<Rightarrow> vec3" where
  "round_row decimals (x, y, z) = (np_round decimals x, np_round decimals y, np_round decimals z)"

definition first_index :: "'a list \<Rightarrow> 'a \<Rightarrow> nat" where
  \<comment> \<open>the position of the first occurrence of \<open>x\<close> in \<open>xs\<close>\<close>
  "first_index xs x = length (takeWhile (\<lambda>y. y \<noteq> x) xs)"

text \<open>
  \<open>np.unique(view, return_index=True, return_inverse=True)\<close>: the sorted distinct values,
  for each of them the index of its first occurrence, and for each input position the
  index of its value among the distinct ones.  Rows viewed as records compare field by
  field, which is the lexicographic order of triples.
\<close>

definition np_unique :: "'a::linorder list \<Rightarrow> 'a list \<times> nat list \<times> nat list" where
  "np_unique ar =
     (let unique = sort (remdups ar);
          idx = map (first_index ar) unique;
          inv = map (first_index unique) ar
      in (unique, idx, inv))"

definition unique_rows_tol :: "vec3 list \<Rightarrow> int \<Rightarrow> vec3 list \<times> nat list" where
  "unique_rows_tol points decimals =
     (let a = points;
          ar = map (round_row decimals) a;
          idx = fst (snd (np_unique ar));
          inv = snd (snd (np_unique ar));
          nodes = map (\<lambda>i. a ! i) idx
      in (nodes, inv))"

fun triangle_rows :: "'c triangle \<Rightarrow> ('c \<times> 'c \<times> 'c) list" where
  "triangle_rows (p, q, r) = [p, q, r]"

fun reshape3 :: "nat list \<Rightarrow> face list" where
  \<comment> \<open>\<open>.reshape(-1, 3).astype(np.int32)\<close> of an index array\<close>
  "reshape3 (i # j # k # rest) = (int i, int j, int k) # reshape3 rest"
| "reshape3 _ = []"

definition mesh_of_triangles :: "real triangle list \<Rightarrow> bool \<Rightarrow> int \<Rightarrow> vec3 list \<times> face list" where
  \<comment> \<open>the end of \<open>load_stl\<close>, from \<open>verts = triangles.reshape(-1, 3)\<close>\<close>
  "mesh_of_triangles triangles merge_vertices decimals =
     (let verts = concat (map triangle_rows triangles)
      in if merge_vertices then
           let nodes = fst (unique_rows_tol verts decimals);
               inv = snd (unique_rows_tol verts decimals);
               faces = reshape3 inv
           in (nodes, faces)
         else
           let nodes = verts;
               faces = reshape3 [0..<length nodes]
           in (nodes, faces))"

definition load_stl :: "(byte list \<Rightarrow> real) \<Rightarrow> (byte list \<Rightarrow> string) \<Rightarrow> (string \<Rightarrow> real option)
    \<Rightarrow> byte list \<Rightarrow> bool \<Rightarrow> int \<Rightarrow> error + vec3 list \<times> face list" where
  \<comment> \<open>\<open>load_stl\<close> on the bytes of an existing file, without trimesh\<close>
  "load_stl f32 utf8 to_float data merge_vertices decimals =
     (case load_triangles f32 utf8 to_float data of
        Inl e \<Rightarrow> Inl e
      | Inr triangles \<Rightarrow> Inr (mesh_of_triangles triangles merge_vertices decimals))"

text \<open>
  The order the specification describes for the canonical node list: the distinct values
  of a stream, each at the place of its first occurrence.
\<close>

fun first_seen_order :: "'a list \<Rightarrow> 'a list" where
  "first_seen_order [] = []"
| "first_seen_order (x # xs) = x # filter (\<lambda>y. y \<noteq> x) (first_seen_order xs)"

section \<open>Properties\<close>

subsection \<open>Wadell sphericity\<close>

lemma sphericity_wadell_positive_volume:
  assumes "0 < V" and "0 < A"
  shows "sphericity_wadell V A = Inr (6 * V / ((6 * V / pi) powr (1 / 3) * A))"
  using assms by (simp add: sphericity_wadell_def py_truediv_def)

lemma sphericity_wadell_domain_error:
  "sphericity_wadell V A = Inl DomainError \<longleftrightarrow> A \<le> 0 \<or> V < 0"
  by (auto simp add: sphericity_wadell_def py_truediv_def)

text \<open>
  C1: \<open>sphericity_wadell\<close> is meant to accept a zero volume with a positive area and to
  return a value.  At \<open>V = 0\<close>, \<open>A = 1\<close> the divisor \<open>(6V/\<pi>)^(1/3) \<sqdot> A\<close> is zero, so the
  division raises \<open>ZeroDivisionError\<close> instead of returning.
\<close>

theorem sphericity_wadell_zero_volume_raises:
  "sphericity_wadell 0 1 = Inl ZeroDivisionError"
  by (simp add: sphericity_wadell_def py_truediv_def)

subsection \<open>Index arrays and surface area\<close>

lemma arr_min_Min: "xs \<noteq> [] \<Longrightarrow> arr_min xs = Min (set xs)"
  using Min.set_eq_fold [of "hd xs" "tl xs"] by (cases xs) (simp_all add: arr_min_def)

lemma arr_max_Max: "xs \<noteq> [] \<Longrightarrow> arr_max xs = Max (set xs)"
  using Max.set_eq_fold [of "hd xs" "tl xs"] by (cases xs) (simp_all add: arr_max_def)

lemma face_entries_minus_1:
  "concat (map face_entries (map face_minus_1 F)) = map (\<lambda>e. e - 1) (concat (map face_entries F))"
  by (induction F) auto

lemma entries_nonempty: "F \<noteq> [] \<Longrightarrow> concat (map face_entries F) \<noteq> []"
  by (cases F) auto

lemma norm3_nonneg: "0 \<le> norm3 v"
  by (cases v) simp

lemma tri_area_nonneg: "0 \<le> tri_area nodes f"
  by (cases f) (simp add: Let_def norm3_nonneg)

lemma Min_shift:
  fixes xs :: "int list"
  assumes "xs \<noteq> []"
  shows "Min (set (map (\<lambda>e. e - 1) xs)) = Min (set xs) - 1"
proof -
  have "Min ((\<lambda>e. e - 1) ` set xs) = Min (set xs) - 1"
    using assms by (intro mono_Min_commute [symmetric]) (auto simp: mono_def)
  then show ?thesis by simp
qed

lemma Max_shift:
  fixes xs :: "int list"
  assumes "xs \<noteq> []"
  shows "Max (set (map (\<lambda>e. e - 1) xs)) = Max (set xs) - 1"
proof -
  have "Max ((\<lambda>e. e - 1) ` set xs) = Max (set xs) - 1"
    using assms by (intro mono_Max_commute [symmetric]) (auto simp: mono_def)
  then show ?thesis by simp
qed

lemma surface_area_converted:
  assumes "is_one_based (length nodes) (concat (map face_entries F))"
    and "\<not> out_of_range (length nodes) (map (\<lambda>e. e - 1) (concat (map face_entries F)))"
  shows "surface_area nodes F = Inr (sum_list (map (tri_area nodes) (map face_minus_1 F)))"
  unfolding surface_area_def convert_faces_def Let_def
  using assms by (simp only: if_True if_False face_entries_minus_1)

lemma surface_area_plain:
  assumes "\<not> is_one_based (length nodes) (concat (map face_entries F))"
    and "\<not> out_of_range (length nodes) (concat (map face_entries F))"
  shows "surface_area nodes F = Inr (sum_list (map (tri_area nodes) F))"
  unfolding surface_area_def convert_faces_def Let_def
  using assms by (simp only: if_True if_False)

text \<open>
  C3 (as amended): for a face list whose entries all lie in \<open>[1, N]\<close> and that is empty or
  uses both the index \<open>1\<close> and the index \<open>N\<close>, \<open>surface_area\<close> returns the same area for
  the list and for the list with every entry decremented, without raising.  The
  conversion is applied exactly when the list is non-empty, its least entry is \<open>1\<close> and
  its greatest entry is \<open>N\<close>.
\<close>

theorem surface_area_one_based:
  fixes nodes :: "vec3 list" and F :: "face list"
  defines "E \<equiv> concat (map face_entries F)"
  shows "((\<forall>e \<in> set E. 1 \<le> e \<and> e \<le> int (length nodes)) \<and>
          (F = [] \<or> (1 \<in> set E \<and> int (length nodes) \<in> set E))
          \<longrightarrow> surface_area nodes F = surface_area nodes (map face_minus_1 F)
              \<and> surface_area nodes F = Inr (sum_list (map (tri_area nodes) (map face_minus_1 F))))
       \<and> convert_faces (length nodes) F =
           (if F \<noteq> [] \<and> Min (set E) = 1 \<and> Max (set E) = int (length nodes)
            then map face_minus_1 F else F)"
proof (intro conjI impI)
  show "convert_faces (length nodes) F =
           (if F \<noteq> [] \<and> Min (set E) = 1 \<and> Max (set E) = int (length nodes)
            then map face_minus_1 F else F)"
  proof (cases "F = []")
    case True
    then show ?thesis by (simp add: convert_faces_def is_one_based_def)
  next
    case False
    then have "E \<noteq> []" unfolding E_def by (rule entries_nonempty)
    then show ?thesis
      using False by (simp add: convert_faces_def is_one_based_def arr_min_Min arr_max_Max E_def)
  qed
next
  assume h: "(\<forall>e \<in> set E. 1 \<le> e \<and> e \<le> int (length nodes)) \<and>
          (F = [] \<or> (1 \<in> set E \<and> int (length nodes) \<in> set E))"
  have "surface_area nodes F = Inr (sum_list (map (tri_area nodes) (map face_minus_1 F)))
      \<and> surface_area nodes (map face_minus_1 F) = Inr (sum_list (map (tri_area nodes) (map face_minus_1 F)))"
  proof (cases "F = []")
    case True
    then show ?thesis
      by (simp add: surface_area_def convert_faces_def is_one_based_def out_of_range_def)
  next
    case False
    then have ne: "E \<noteq> []" unfolding E_def by (rule entries_nonempty)
    from h False have one: "1 \<in> set E" and top: "int (length nodes) \<in> set E"
      and rng: "\<forall>e \<in> set E. 1 \<le> e \<and> e \<le> int (length nodes)" by auto
    have mn: "Min (set E) = 1"
      using one rng by (intro Min_eqI) auto
    have mx: "Max (set E) = int (length nodes)"
      using top rng by (intro Max_eqI) auto
    have ob: "is_one_based (length nodes) E"
      using ne mn mx by (simp add: is_one_based_def arr_min_Min arr_max_Max)
    let ?E' = "map (\<lambda>e. e - 1) E"
    have ne': "?E' \<noteq> []" using ne by simp
    have mn': "arr_min ?E' = 0" using Min_shift [OF ne] mn by (simp only: arr_min_Min [OF ne'])
    have mx': "arr_max ?E' = int (length nodes) - 1"
      using Max_shift [OF ne] mx by (simp only: arr_max_Max [OF ne'])
    have nob: "\<not> is_one_based (length nodes) ?E'" using mn' by (simp add: is_one_based_def)
    have nout: "\<not> out_of_range (length nodes) ?E'" using mn' mx' by (simp add: out_of_range_def)
    have "surface_area nodes F = Inr (sum_list (map (tri_area nodes) (map face_minus_1 F)))"
      using ob nout unfolding E_def by (rule surface_area_converted)
    moreover have "surface_area nodes (map face_minus_1 F)
        = Inr (sum_list (map (tri_area nodes) (map face_minus_1 F)))"
      using nob nout unfolding E_def face_entries_minus_1 [symmetric] by (rule surface_area_plain)
    ultimately show ?thesis by simp
  qed
  then show "surface_area nodes F = surface_area nodes (map face_minus_1 F)"
    and "surface_area nodes F = Inr (sum_list (map (tri_area nodes) (map face_minus_1 F)))"
    by simp_all
qed

theorem surface_area_one_based_witness:
  "surface_area [(0,0,0),(1,0,0),(1,1,0),(0,1,0)] [(1,2,3),(1,3,4)]
     = surface_area [(0,0,0),(1,0,0),(1,1,0),(0,1,0)] [(0,1,2),(0,2,3)]
   \<and> surface_area [(0,0,0),(1,0,0),(1,1,0),(0,1,0)] [(1,2,3),(1,3,4)] = Inr 1"
  using surface_area_one_based [where nodes = "[(0,0,0),(1,0,0),(1,1,0),(0,1,0)]"
      and F = "[(1,2,3),(1,3,4)]"]
  by (simp add: surface_area_def convert_faces_def is_one_based_def out_of_range_def
      arr_min_def arr_max_def)

text \<open>
  The face \<open>(2, 3, 4)\<close> over four nodes is a valid 1-based triangle, but its least entry is
  not \<open>1\<close>: it is not converted and the index \<open>4\<close> is rejected, whereas the 0-based
  equivalent \<open>(1, 2, 3)\<close> is accepted.
\<close>

theorem surface_area_one_based_counterexample:
  "surface_area [(0,0,0),(1,0,0),(1,1,0),(0,1,0)] [(2,3,4)]
     \<noteq> surface_area [(0,0,0),(1,0,0),(1,1,0),(0,1,0)] (map face_minus_1 [(2,3,4)])"
  by (simp add: surface_area_def convert_faces_def is_one_based_def out_of_range_def arr_min_def arr_max_def)

text \<open>
  C10: \<open>surface_area\<close> of an empty face list is exactly \<open>0\<close>, with no validation error,
  and every area it returns is non-negative.
\<close>

theorem surface_area_empty_and_nonneg:
  "surface_area nodes [] = Inr 0 \<and> (surface_area nodes faces = Inr a \<longrightarrow> 0 \<le> a)"
proof
  show "surface_area nodes [] = Inr 0"
    by (simp add: surface_area_def convert_faces_def is_one_based_def out_of_range_def)
next
  show "surface_area nodes faces = Inr a \<longrightarrow> 0 \<le> a"
    by (auto simp add: surface_area_def Let_def tri_area_nonneg simp del: tri_area.simps
        intro!: sum_list_nonneg split: if_splits)
qed

theorem surface_area_empty_and_nonneg_witness:
  "surface_area [(0,0,0),(1,0,0),(1,1,0),(0,1,0)] [] = Inr 0
   \<and> surface_area [(0,0,0),(1,0,0),(1,1,0),(0,1,0)] [(0,1,2),(0,2,3)] = Inr 1 \<and> (0::real) \<le> 1"
  using surface_area_empty_and_nonneg [where nodes = "[(0,0,0),(1,0,0),(1,1,0),(0,1,0)]"
      and faces = "[(0,1,2),(0,2,3)]" and a = 1]
  by (simp add: surface_area_def convert_faces_def is_one_based_def out_of_range_def arr_min_def arr_max_def)

subsection \<open>Volume and centroid of the unit right tetrahedron\<close>

lemma volume_and_centroid_eq:
  "volume_and_centroid (volume_centroid_inertia_tensor eigh nodes elements0 calculate_inertia) =
     (let elements = convert_elements (length nodes) elements0
      in if out_of_range (length nodes) (concat (map element_entries elements))
         then Inl ValidationError
         else if sum_list (map (tet_volume nodes) elements) \<le> 0 then Inl DegenerateGeometryError
         else Inr (sum_list (map (tet_volume nodes) elements),
                   vdiv (vsum (map2 vscale (map (tet_volume nodes) elements)
                                  (map (tet_centroid nodes) elements)))
                        (sum_list (map (tet_volume nodes) elements))))"
  unfolding volume_centroid_inertia_tensor_def volume_and_centroid_def Let_def
  by (cases calculate_inertia) (simp_all only: map_sum.simps id_apply if_distrib [of "map_sum _ _"] 
      case_prod_conv if_True if_False not_True_eq_False not_False_eq_True)

lemma convert_elements_one_based_tet:
  "convert_elements 4 [(1, 2, 3, 4)] = [(0, 1, 2, 3)]"
  by (simp add: convert_elements_def is_one_based_def arr_min_def arr_max_def)

lemma convert_elements_zero_based_tet:
  "convert_elements 4 [(0, 1, 2, 3)] = [(0, 1, 2, 3)]"
  by (simp add: convert_elements_def is_one_based_def arr_min_def arr_max_def)

lemma length_unit_tet: "length [(0, 0, 0), (1, 0, 0), (0, 1, 0), (0, 0, 1::real)] = 4"
  by simp

lemma unit_tet_zero_based:
  "volume_and_centroid (volume_centroid_inertia_tensor eigh
       [(0, 0, 0), (1, 0, 0), (0, 1, 0), (0, 0, 1)] [(0, 1, 2, 3)] calculate_inertia)
     = Inr (1 / 6, (1 / 4, 1 / 4, 1 / 4))"
  unfolding volume_and_centroid_eq length_unit_tet convert_elements_zero_based_tet
  by (simp add: out_of_range_def arr_min_def arr_max_def vsum_def vzero_def)

lemma unit_tet_index_base:
  "volume_centroid_inertia_tensor eigh
       [(0, 0, 0), (1, 0, 0), (0, 1, 0), (0, 0, 1)] [(1, 2, 3, 4)] calculate_inertia
     = volume_centroid_inertia_tensor eigh
       [(0, 0, 0), (1, 0, 0), (0, 1, 0), (0, 0, 1)] [(0, 1, 2, 3)] calculate_inertia"
  unfolding volume_centroid_inertia_tensor_def length_unit_tet
    convert_elements_zero_based_tet convert_elements_one_based_tet ..

text \<open>
  C8: on the tetrahedron with vertices \<open>(0,0,0)\<close>, \<open>(1,0,0)\<close>, \<open>(0,1,0)\<close>, \<open>(0,0,1)\<close>,
  \<open>volume_centroid_inertia_tensor\<close> returns the volume \<open>1/6\<close> and the centroid
  \<open>(1/4, 1/4, 1/4)\<close>, and the whole result is the same for the element \<open>(0,1,2,3)\<close> and for
  the element \<open>(1,2,3,4)\<close>, whether or not the inertia tensor is asked for and whatever the
  eigen-solver returns.
\<close>

theorem unit_tetrahedron_volume_centroid:
  "volume_and_centroid (volume_centroid_inertia_tensor eigh
       [(0, 0, 0), (1, 0, 0), (0, 1, 0), (0, 0, 1)] [(0, 1, 2, 3)] calculate_inertia)
     = Inr (1 / 6, (1 / 4, 1 / 4, 1 / 4))
   \<and> volume_and_centroid (volume_centroid_inertia_tensor eigh
       [(0, 0, 0), (1, 0, 0), (0, 1, 0), (0, 0, 1)] [(1, 2, 3, 4)] calculate_inertia)
     = Inr (1 / 6, (1 / 4, 1 / 4, 1 / 4))
   \<and> volume_centroid_inertia_tensor eigh
       [(0, 0, 0), (1, 0, 0), (0, 1, 0), (0, 0, 1)] [(1, 2, 3, 4)] calculate_inertia
     = volume_centroid_inertia_tensor eigh
       [(0, 0, 0), (1, 0, 0), (0, 1, 0), (0, 0, 1)] [(0, 1, 2, 3)] calculate_inertia"
  using unit_tet_zero_based [of eigh calculate_inertia] unit_tet_index_base [of eigh calculate_inertia]
  by (simp only: simp_thms)
 

subsection \<open>The surface orientation tensor\<close>

lemma trace3_madd: "trace3 (madd m1 m2) = trace3 m1 + trace3 m2"
  by (cases m1 rule: prod_cases3; cases m2 rule: prod_cases3) (auto split: prod.splits)

lemma trace3_mscale: "trace3 (mscale s m) = s * trace3 m"
  by (cases m rule: prod_cases3) (auto split: prod.splits simp: algebra_simps)

lemma trace3_mdiv: "trace3 (mdiv m s) = trace3 m / s"
  by (cases m rule: prod_cases3) (auto split: prod.splits simp: add_divide_distrib)

lemma trace3_outer: "trace3 (outer u) = dot u u"
  by (cases u) simp

lemma trace3_mzero: "trace3 mzero = 0"
  by (simp add: mzero_def vzero_def)

lemma dot_self_norm3: "dot u u = (norm3 u)\<^sup>2"
  by (cases u) (simp add: power2_eq_square [symmetric])

lemma dot_vdiv: "dot (vdiv v s) (vdiv v s) = dot v v / (s * s)"
  by (cases v) (simp add: add_divide_distrib)

lemma dot_unit_normal:
  assumes "0 < norm3 v"
  shows "dot (unit_normal v (norm3 v)) (unit_normal v (norm3 v)) = 1"
proof -
  have "dot (unit_normal v (norm3 v)) (unit_normal v (norm3 v)) = dot v v / (norm3 v * norm3 v)"
    using assms by (simp add: unit_normal_def dot_vdiv)
  also have "\<dots> = 1"
    using assms by (simp add: dot_self_norm3 power2_eq_square)
  finally show ?thesis .
qed

lemma sorted_triple:
  fixes key :: "nat \<Rightarrow> real"
  defines "E \<equiv> map key (rev (sort_key key [0, 1, 2]))"
  shows "E ! 1 \<le> E ! 0" and "E ! 2 \<le> E ! 1" and "E ! 0 + E ! 1 + E ! 2 = key 0 + key 1 + key 2"
  unfolding E_def by (auto simp add: numeral_2_eq_2)

lemma trace3_fold:
  "trace3 (fold (\<lambda>k f. madd f (mscale (a k) (outer (n k)))) ks acc)
     = trace3 acc + sum_list (map (\<lambda>k. a k * dot (n k) (n k)) ks)"
  by (induction ks arbitrary: acc) (simp_all add: trace3_madd trace3_mscale trace3_outer)

lemma length_tri_normals: "length (tri_normals nodes faces) = length faces"
  by (simp add: tri_normals_def)

lemma length_tri_areas: "length (tri_areas nodes faces) = length faces"
  by (simp add: tri_areas_def)

lemma tri_areas_nth:
  "k < length faces \<Longrightarrow> tri_areas nodes faces ! k = 0.5 * norm3 (tri_vector nodes (faces ! k))"
  by (simp add: tri_areas_def)

lemma tri_normals_nth:
  "k < length faces \<Longrightarrow> tri_normals nodes faces ! k
     = unit_normal (tri_vector nodes (faces ! k)) (norm3 (tri_vector nodes (faces ! k)))"
  by (simp add: tri_normals_def)

lemma area_times_unit:
  assumes "k < length faces"
  shows "tri_areas nodes faces ! k
           * dot (tri_normals nodes faces ! k) (tri_normals nodes faces ! k)
         = tri_areas nodes faces ! k"
proof (cases "0 < norm3 (tri_vector nodes (faces ! k))")
  case True
  then show ?thesis using assms by (simp add: tri_normals_nth dot_unit_normal)
next
  case False
  then have "norm3 (tri_vector nodes (faces ! k)) = 0"
    using norm3_nonneg [of "tri_vector nodes (faces ! k)"] by simp
  then show ?thesis using assms by (simp add: tri_areas_nth)
qed

lemma trace3_orientation_sum:
  "trace3 (fold (\<lambda>k f. madd f (mscale (tri_areas nodes faces ! k)
                                   (outer (tri_normals nodes faces ! k))))
                [0..<length (tri_normals nodes faces)] mzero)
     = sum_list (tri_areas nodes faces)"
proof -
  have "sum_list (map (\<lambda>k. tri_areas nodes faces ! k
            * dot (tri_normals nodes faces ! k) (tri_normals nodes faces ! k)) [0..<length faces])
        = sum_list (map (\<lambda>k. tri_areas nodes faces ! k) [0..<length (tri_areas nodes faces)])"
    unfolding length_tri_areas
    by (rule arg_cong [where f = sum_list], rule map_cong) (simp_all add: area_times_unit)
  also have "\<dots> = sum_list (tri_areas nodes faces)"
    by (simp only: map_nth)
  finally show ?thesis
    by (simp add: trace3_fold [where a = "\<lambda>k. tri_areas nodes faces ! k"
          and n = "\<lambda>k. tri_normals nodes faces ! k"] trace3_mzero length_tri_normals)
qed

lemma trace3_orientation_tensor:
  assumes "0 < sum_list (tri_areas nodes faces)"
  shows "trace3 (orientation_tensor nodes faces) = 1"
  using assms unfolding orientation_tensor_def Let_def
  by (simp only: trace3_mdiv trace3_orientation_sum) simp

lemma spectrum_trace:
  assumes "is_spectrum m vals"
  shows "cx vals + cy vals + cz vals = trace3 m"
proof -
  obtain a11 a12 a13 a21 a22 a23 a31 a32 a33
    where m: "m = ((a11, a12, a13), (a21, a22, a23), (a31, a32, a33))"
    by (metis prod_cases3)
  obtain l1 l2 l3 where v: "vals = (l1, l2, l3)" by (cases vals)
  have p: "det3 (madd m (mscale (- x) ident3)) = (l1 - x) * (l2 - x) * (l3 - x)" for x
    using assms unfolding is_spectrum_def v by simp
  from p [of 0] p [of 1] p [of "-1"] show ?thesis
    unfolding m v by (simp add: ident3_def algebra_simps)
qed

lemma vnth_sum: "vnth vals 0 + vnth vals 1 + vnth vals 2 = cx vals + cy vals + cz vals"
  by (simp add: vnth_def numeral_2_eq_2)

lemma orientation_branches:
  fixes tot :: real
  assumes "(if oor then Inl ValidationError
            else if tot \<le> 0 then Inl DegenerateGeometryError
            else if e0 \<le> 0 then Inl DegenerateGeometryError
            else Inr (e2 / e0, (e0 - e1) / e0, (e1 - e2) / e0, (e0, e1, e2), V))
           = (Inr (C, F, R, (f1, f2, f3), vecs) :: error + orientation_result)"
  shows "0 < tot" and "f1 = e0" and "f2 = e1" and "f3 = e2"
    and "0 < f1" and "C = f3 / f1" and "F = (f1 - f2) / f1" and "R = (f2 - f3) / f1"
  using assms by (auto split: if_splits)

lemma orientation_success:
  assumes "surface_orientation_tensor eig nodes faces = Inr (C, F, R, (f1, f2, f3), vecs)"
  defines "fs \<equiv> convert_faces (length nodes) faces"
  defines "vals \<equiv> fst (eig (orientation_tensor nodes fs))"
  defines "E \<equiv> map (vnth vals) (rev (sort_key (vnth vals) [0, 1, 2]))"
  shows "0 < sum_list (tri_areas nodes fs)" and "f1 = E ! 0" and "f2 = E ! 1" and "f3 = E ! 2"
    and "0 < f1" and "C = f3 / f1" and "F = (f1 - f2) / f1" and "R = (f2 - f3) / f1"
  unfolding E_def vals_def fs_def
  by (rule orientation_branches [OF assms(1) [unfolded surface_orientation_tensor_def Let_def]])+

text \<open>
  C6: when \<open>surface_orientation_tensor\<close> returns, and the eigen-solver has returned the
  spectrum of the orientation tensor, the eigenvalue triple is in descending order and
  sums to \<open>1\<close>, the indices are \<open>C = f3/f1\<close>, \<open>F = (f1 - f2)/f1\<close>, \<open>R = (f2 - f3)/f1\<close>, and
  \<open>F + R = 1 - C\<close>.
\<close>

theorem orientation_eigenvalues:
  assumes ok: "surface_orientation_tensor eig nodes faces = Inr (C, F, R, (f1, f2, f3), vecs)"
    and spec: "is_spectrum (orientation_tensor nodes (convert_faces (length nodes) faces))
                 (fst (eig (orientation_tensor nodes (convert_faces (length nodes) faces))))"
  shows "f2 \<le> f1 \<and> f3 \<le> f2 \<and> f1 + f2 + f3 = 1
       \<and> C = f3 / f1 \<and> F = (f1 - f2) / f1 \<and> R = (f2 - f3) / f1 \<and> F + R = 1 - C"
proof -
  let ?fs = "convert_faces (length nodes) faces"
  let ?vals = "fst (eig (orientation_tensor nodes ?fs))"
  note s = orientation_success [OF ok]
  have tr: "trace3 (orientation_tensor nodes ?fs) = 1"
    using s(1) by (rule trace3_orientation_tensor)
  have sum: "vnth ?vals 0 + vnth ?vals 1 + vnth ?vals 2 = 1"
    using spectrum_trace [OF spec] tr by (simp only: vnth_sum)
  have "f2 \<le> f1" and "f3 \<le> f2" and "f1 + f2 + f3 = 1"
    using sorted_triple [of "vnth ?vals"] sum unfolding s(2,3,4) by simp_all
  moreover have "F + R = 1 - C"
    using s(5) unfolding s(6,7,8) by (simp add: field_simps)
  ultimately show ?thesis using s(6,7,8) by simp
qed

theorem orientation_eigenvalues_witness:
  "surface_orientation_tensor (\<lambda>m. ((0, 0, 1), ident3))
      [(0,0,0),(1,0,0),(1,1,0),(0,1,0)] [(0,1,2),(0,2,3)]
     = Inr (0, 1, 0, (1, 0, 0), ((0, 0, 1), (0, 1, 0), (1, 0, 0)))
   \<and> (0::real) \<le> 1 \<and> (1::real) + 0 + 0 = 1 \<and> (1::real) + 0 = 1 - 0"
proof -
  let ?eig = "\<lambda>m::mat3. ((0::real, 0::real, 1::real), ident3)"
  let ?nodes = "[(0,0,0),(1,0,0),(1,1,0),(0,1,0)] :: vec3 list"
  let ?faces = "[(0,1,2),(0,2,3)] :: face list"
  have conv: "convert_faces (length ?nodes) ?faces = ?faces"
    by (simp add: convert_faces_def is_one_based_def arr_min_def arr_max_def)
  have tensor: "orientation_tensor ?nodes ?faces = ((0,0,0),(0,0,0),(0,0,1))"
    by (simp add: orientation_tensor_def tri_areas_def tri_normals_def tri_vector_def
        unit_normal_def mzero_def vzero_def upt_rec numeral_2_eq_2)
  have spec: "is_spectrum (orientation_tensor ?nodes (convert_faces (length ?nodes) ?faces))
      (fst (?eig (orientation_tensor ?nodes (convert_faces (length ?nodes) ?faces))))"
    unfolding conv tensor by (simp add: is_spectrum_def ident3_def)
  have ok: "surface_orientation_tensor ?eig ?nodes ?faces
      = Inr (0, 1, 0, (1, 0, 0), ((0, 0, 1), (0, 1, 0), (1, 0, 0)))"
    unfolding surface_orientation_tensor_def conv tensor
    by (simp add: out_of_range_def arr_min_def arr_max_def tri_areas_def tri_vector_def
        vnth_def take_columns_def ident3_def numeral_2_eq_2)
  from orientation_eigenvalues [OF ok spec] ok show ?thesis by simp
qed

lemma leading_eigenvalue_positive:
  assumes "0 < sum_list (tri_areas nodes fs)"
    and "is_spectrum (orientation_tensor nodes fs) (fst (eig (orientation_tensor nodes fs)))"
  shows "0 < map (vnth (fst (eig (orientation_tensor nodes fs))))
               (rev (sort_key (vnth (fst (eig (orientation_tensor nodes fs)))) [0, 1, 2])) ! 0"
proof -
  let ?vals = "fst (eig (orientation_tensor nodes fs))"
  have "trace3 (orientation_tensor nodes fs) = 1"
    using assms(1) by (rule trace3_orientation_tensor)
  then have "vnth ?vals 0 + vnth ?vals 1 + vnth ?vals 2 = 1"
    using spectrum_trace [OF assms(2)] by (simp only: vnth_sum)
  then show ?thesis
    using sorted_triple [of "vnth ?vals"] by linarith
qed

lemma orientation_branches_error:
  fixes tot e0 :: real
  assumes "\<not> oor" and "0 < tot \<Longrightarrow> 0 < e0"
  shows "((if oor then Inl ValidationError
          else if tot \<le> 0 then Inl DegenerateGeometryError
          else if e0 \<le> 0 then Inl DegenerateGeometryError
          else Inr r) = (Inl DegenerateGeometryError :: error + orientation_result)
         \<longleftrightarrow> tot \<le> 0)
    \<and> (0 < tot \<longrightarrow>
         (\<exists>r'. (if oor then Inl ValidationError
          else if tot \<le> 0 then Inl DegenerateGeometryError
          else if e0 \<le> 0 then Inl DegenerateGeometryError
          else Inr r) = (Inr r' :: error + orientation_result)))"
proof (cases "0 < tot")
  case True
  with assms have "0 < e0" by simp
  with True assms(1) show ?thesis by (simp del: split_paired_Ex)
next
  case False
  with assms(1) show ?thesis by simp
qed

lemma degenerate_triangle_contribution:
  assumes "norm3 v = 0"
  shows "unit_normal v (norm3 v) = vzero" and "0.5 * norm3 v = 0"
    and "mscale (0.5 * norm3 v) (outer (unit_normal v (norm3 v))) = mzero"
  using assms by (simp_all add: unit_normal_def vzero_def mzero_def)

text \<open>
  C7: a triangle whose cross-product vector has norm zero gets the zero vector as its unit
  normal, the area zero, and adds the zero matrix to the tensor sum.  For face indices that
  pass validation, and an eigen-solver that returns the spectrum of the tensor,
  \<open>surface_orientation_tensor\<close> raises \<open>DegenerateGeometryError\<close> exactly when the total area
  is not positive, and returns a result otherwise.
\<close>

theorem orientation_degenerate_geometry:
  fixes nodes :: "vec3 list" and faces :: "face list" and t :: face
  defines "fs \<equiv> convert_faces (length nodes) faces"
  defines "v \<equiv> tri_vector nodes t"
  assumes valid: "\<not> out_of_range (length nodes) (concat (map face_entries fs))"
    and spec: "0 < sum_list (tri_areas nodes fs) \<Longrightarrow>
        is_spectrum (orientation_tensor nodes fs) (fst (eig (orientation_tensor nodes fs)))"
  shows "(norm3 v = 0 \<longrightarrow>
            unit_normal v (norm3 v) = vzero \<and> 0.5 * norm3 v = 0
            \<and> mscale (0.5 * norm3 v) (outer (unit_normal v (norm3 v))) = mzero)
       \<and> (surface_orientation_tensor eig nodes faces = Inl DegenerateGeometryError
            \<longleftrightarrow> sum_list (tri_areas nodes fs) \<le> 0)
       \<and> (0 < sum_list (tri_areas nodes fs) \<longrightarrow>
            (\<exists>r. surface_orientation_tensor eig nodes faces = Inr r))"
proof -
  have lead: "0 < sum_list (tri_areas nodes (convert_faces (length nodes) faces)) \<Longrightarrow>
      0 < map (vnth (fst (eig (orientation_tensor nodes (convert_faces (length nodes) faces)))))
            (rev (sort_key (vnth (fst (eig (orientation_tensor nodes
                (convert_faces (length nodes) faces))))) [0, 1, 2])) ! 0"
    using leading_eigenvalue_positive [where eig = eig and fs = fs and nodes = nodes] spec
    unfolding fs_def by blast
  note valid' = valid [unfolded fs_def]
  have "norm3 v = 0 \<longrightarrow>
            unit_normal v (norm3 v) = vzero \<and> 0.5 * norm3 v = 0
            \<and> mscale (0.5 * norm3 v) (outer (unit_normal v (norm3 v))) = mzero"
    using degenerate_triangle_contribution [of v] by blast
  moreover have "surface_orientation_tensor eig nodes faces = Inl DegenerateGeometryError
            \<longleftrightarrow> sum_list (tri_areas nodes fs) \<le> 0"
    unfolding surface_orientation_tensor_def Let_def fs_def
    using orientation_branches_error [OF valid' lead] by blast
  moreover have "0 < sum_list (tri_areas nodes fs) \<longrightarrow>
            (\<exists>r. surface_orientation_tensor eig nodes faces = Inr r)"
    unfolding surface_orientation_tensor_def Let_def fs_def
    using orientation_branches_error [OF valid' lead] by blast
  ultimately show ?thesis by blast
qed

theorem orientation_degenerate_geometry_witness:
  "norm3 (tri_vector [(0,0,0),(1,0,0),(1,1,0),(0,1,0)] (0,0,1)) = 0
   \<and> unit_normal (tri_vector [(0,0,0),(1,0,0),(1,1,0),(0,1,0)] (0,0,1)) 0 = vzero
   \<and> surface_orientation_tensor (\<lambda>m. ((0, 0, 1), ident3))
        [(0,0,0),(1,0,0),(1,1,0),(0,1,0)] [(0,1,2),(0,0,1)]
       = Inr (0, 1, 0, (1, 0, 0), ((0, 0, 1), (0, 1, 0), (1, 0, 0)))
   \<and> surface_orientation_tensor (\<lambda>m. ((0, 0, 1), ident3))
        [(0,0,0),(1,0,0),(1,1,0),(0,1,0)] [(0,0,1)] = Inl DegenerateGeometryError"
proof -
  let ?eig = "\<lambda>m::mat3. ((0::real, 0::real, 1::real), ident3)"
  let ?nodes = "[(0,0,0),(1,0,0),(1,1,0),(0,1,0)] :: vec3 list"
  let ?faces = "[(0,1,2),(0,0,1)] :: face list"
  let ?flat = "[(0,0,1)] :: face list"
  have conv: "convert_faces (length ?nodes) ?faces = ?faces"
    by (simp add: convert_faces_def is_one_based_def arr_min_def arr_max_def)
  have conv': "convert_faces (length ?nodes) ?flat = ?flat"
    by (simp add: convert_faces_def is_one_based_def arr_min_def arr_max_def)
  have tensor: "orientation_tensor ?nodes ?faces = ((0,0,0),(0,0,0),(0,0,1))"
    by (simp add: orientation_tensor_def tri_areas_def tri_normals_def tri_vector_def
        unit_normal_def mzero_def vzero_def upt_rec numeral_2_eq_2)
  have area: "sum_list (tri_areas ?nodes ?faces) = 1 / 2"
    by (simp add: tri_areas_def tri_vector_def)
  have area': "sum_list (tri_areas ?nodes ?flat) = 0"
    by (simp add: tri_areas_def tri_vector_def)
  have valid: "\<not> out_of_range (length ?nodes)
      (concat (map face_entries (convert_faces (length ?nodes) ?faces)))"
    unfolding conv by (simp add: out_of_range_def arr_min_def arr_max_def)
  have valid': "\<not> out_of_range (length ?nodes)
      (concat (map face_entries (convert_faces (length ?nodes) ?flat)))"
    unfolding conv' by (simp add: out_of_range_def arr_min_def arr_max_def)
  have spec: "is_spectrum (orientation_tensor ?nodes (convert_faces (length ?nodes) ?faces))
      (fst (?eig (orientation_tensor ?nodes (convert_faces (length ?nodes) ?faces))))"
    unfolding conv tensor by (simp add: is_spectrum_def ident3_def)
  have degenerate: "norm3 (tri_vector ?nodes (0,0,1)) = 0"
    by (simp add: tri_vector_def)
  have ok: "surface_orientation_tensor ?eig ?nodes ?faces
      = Inr (0, 1, 0, (1, 0, 0), ((0, 0, 1), (0, 1, 0), (1, 0, 0)))"
    unfolding surface_orientation_tensor_def conv tensor
    by (simp add: out_of_range_def arr_min_def arr_max_def tri_areas_def tri_vector_def
        vnth_def take_columns_def ident3_def numeral_2_eq_2)
  have "unit_normal (tri_vector ?nodes (0,0,1)) 0 = vzero"
    using orientation_degenerate_geometry [where eig = ?eig and nodes = ?nodes
        and faces = ?faces and t = "(0,0,1)", OF valid spec] degenerate
    by simp
  moreover have "surface_orientation_tensor ?eig ?nodes ?flat = Inl DegenerateGeometryError"
    using orientation_degenerate_geometry [where eig = ?eig and nodes = ?nodes
        and faces = ?flat and t = "(0,0,1)", OF valid'] area' unfolding conv'
    by simp
  ultimately show ?thesis using degenerate ok by simp
qed

subsection \<open>RMS gradient of a height grid\<close>

lemma sum_list_upt_sum: "sum_list (map f [0..<n]) = (\<Sum>i<n. (f i :: real))"
  by (simp add: interv_sum_list_conv_sum_set_nat atLeast0LessThan)

lemma np_diff_nth:
  "np_diff xs = map (\<lambda>j. xs ! (j + 1) - xs ! j) [0..<length xs - 1]"
  by (rule nth_equalityI) (simp_all add: np_diff_def nth_tl)

lemma diff_axis1_grid:
  "diff_axis1 (grid_rows M N es)
     = map (\<lambda>i. map (\<lambda>j. es ! (i * N + (j + 1)) - es ! (i * N + j)) [0..<N - 1]) [0..<M]"
  by (auto simp add: diff_axis1_def grid_rows_def np_diff_nth)

lemma diff_axis0_grid:
  "diff_axis0 (grid_rows M N es)
     = map (\<lambda>i. map (\<lambda>j. es ! ((i + 1) * N + j) - es ! (i * N + j)) [0..<N]) [0..<M - 1]"
  by (rule nth_equalityI) (simp_all add: diff_axis0_def grid_rows_def nth_tl map2_map_map)

lemma sum_squares_scaled:
  "sum_squares (map (map (\<lambda>d. d / c)) (map (\<lambda>i. map (f i) [0..<n]) [0..<m]))
     = (\<Sum>i<m. \<Sum>j<n. (f i j / c)\<^sup>2)"
  by (simp add: sum_squares_def comp_def sum_list_upt_sum)

text \<open>
  C5: for a 2-D grid with at least two rows and two columns and positive spacings,
  \<open>sdq\<close> returns the square root of the sum of the squared forward differences along the
  columns (each divided by \<open>dx\<close>) plus the sum of the squared forward differences along the
  rows (each divided by \<open>dy\<close>), the total divided by the single normaliser
  \<open>(rows - 1) * (cols - 1)\<close>; it raises when the array is not 2-D, a dimension is below 2, or
  a spacing is not positive.
\<close>

theorem sdq_formula:
  fixes z :: ndarray and dx dy :: real
  defines "M \<equiv> shape z ! 0" and "N \<equiv> shape z ! 1"
  defines "Z \<equiv> \<lambda>i j. entries z ! (i * N + j)"
  shows "(ndim z = 2 \<and> 2 \<le> M \<and> 2 \<le> N \<and> 0 < dx \<and> 0 < dy \<longrightarrow>
            sdq z dx dy = Inr (sqrt (((\<Sum>i<M. \<Sum>j<N - 1. ((Z i (j + 1) - Z i j) / dx)\<^sup>2)
                                    + (\<Sum>i<M - 1. \<Sum>j<N. ((Z (i + 1) j - Z i j) / dy)\<^sup>2))
                                   / real ((M - 1) * (N - 1)))))
       \<and> (ndim z \<noteq> 2 \<or> M < 2 \<or> N < 2 \<or> dx \<le> 0 \<or> dy \<le> 0 \<longrightarrow>
            sdq z dx dy = Inl ValidationError)"
proof (intro conjI impI)
  assume h: "ndim z = 2 \<and> 2 \<le> M \<and> 2 \<le> N \<and> 0 < dx \<and> 0 < dy"
  then have g: "\<not> ndim z \<noteq> 2" "\<not> (dx \<le> 0 \<or> dy \<le> 0)" "\<not> (shape z ! 0 < 2 \<or> shape z ! 1 < 2)"
    unfolding M_def N_def by auto
  show "sdq z dx dy = Inr (sqrt (((\<Sum>i<M. \<Sum>j<N - 1. ((Z i (j + 1) - Z i j) / dx)\<^sup>2)
                                    + (\<Sum>i<M - 1. \<Sum>j<N. ((Z (i + 1) j - Z i j) / dy)\<^sup>2))
                                   / real ((M - 1) * (N - 1))))"
    unfolding sdq_def Let_def diff_axis1_grid diff_axis0_grid sum_squares_scaled
    unfolding M_def [symmetric] N_def [symmetric] Z_def
    using g unfolding M_def [symmetric] N_def [symmetric] by (simp only: if_False)
next
  assume "ndim z \<noteq> 2 \<or> M < 2 \<or> N < 2 \<or> dx \<le> 0 \<or> dy \<le> 0"
  then show "sdq z dx dy = Inl ValidationError"
    unfolding sdq_def Let_def M_def N_def by auto
qed

theorem sdq_formula_witness:
  "sdq \<lparr>shape = [2, 2], entries = [0, 1, 2, 5]\<rparr> 1 1 = Inr (sqrt 30)
   \<and> sdq \<lparr>shape = [4], entries = [0, 1, 2, 5]\<rparr> 1 1 = Inl ValidationError
   \<and> sdq \<lparr>shape = [2, 2], entries = [0, 1, 2, 5]\<rparr> 0 1 = Inl ValidationError"
  using sdq_formula [of "\<lparr>shape = [2, 2], entries = [0, 1, 2, 5]\<rparr>" 1 1]
    sdq_formula [of "\<lparr>shape = [4], entries = [0, 1, 2, 5]\<rparr>" 1 1]
    sdq_formula [of "\<lparr>shape = [2, 2], entries = [0, 1, 2, 5]\<rparr>" 0 1]
  by (simp add: ndim_def numeral_2_eq_2)

subsection \<open>Kurtosis and skewness of a flat grid\<close>

lemma mean_const:
  assumes "xs \<noteq> []" and "\<forall>x \<in> set xs. x = c"
  shows "mean xs = c"
proof -
  have "xs = replicate (length xs) c"
    using assms(2) by (simp add: replicate_length_same)
  then have "sum_list xs = real (length xs) * c"
    by (metis sum_list_replicate)
  then show ?thesis using assms(1) by (simp add: mean_def)
qed

lemma sq_flat:
  assumes "1 \<le> ndim z" and "entries z \<noteq> []" and "\<forall>x \<in> set (entries z). x = c"
  shows "sq z = Inr (Finite 0)"
proof -
  have zm: "mean (entries z) = c" using assms(2,3) by (rule mean_const)
  have "sum_list (map (\<lambda>x. (x - c) ^ 2) (entries z)) = sum_list (map (\<lambda>x. 0) (entries z))"
    using assms(3) by (intro arg_cong [where f = sum_list] map_cong) simp_all
  then have "mean (map (\<lambda>x. (x - c) ^ 2) (entries z)) = 0"
    unfolding mean_def by simp
  then show ?thesis using assms(1,2) zm by (simp add: sq_def)
qed

text \<open>
  C9: for a height grid whose RMS height \<open>sq\<close> is \<open>0\<close>, \<open>sku\<close> returns positive infinity
  and \<open>ssk\<close> returns not-a-number, neither raising; every non-empty grid of constant height
  is such a grid.  For an RMS height \<open>s > 0\<close> they return \<open>mean((z - mean)^4) / s^4\<close> and
  \<open>mean((z - mean)^3) / s^3\<close>.
\<close>

theorem sku_ssk_flat_and_formula:
  fixes z :: ndarray
  defines "zm \<equiv> mean (entries z)"
  shows "(sq z = Inr (Finite 0) \<longrightarrow> sku z None = Inr PosInf \<and> ssk z None = Inr NaN)
       \<and> (1 \<le> ndim z \<and> entries z \<noteq> [] \<and> (\<forall>x \<in> set (entries z). x = c)
            \<longrightarrow> sq z = Inr (Finite 0))
       \<and> (sq z = Inr (Finite s) \<and> 0 < s \<longrightarrow>
            sku z None = Inr (Finite (mean (map (\<lambda>x. (x - zm) ^ 4) (entries z)) / s ^ 4))
          \<and> ssk z None = Inr (Finite (mean (map (\<lambda>x. (x - zm) ^ 3) (entries z)) / s ^ 3)))"
proof (intro conjI impI)
  assume h: "sq z = Inr (Finite 0)"
  then have "\<not> ndim z < 1" by (auto simp add: sq_def split: if_splits)
  with h show "sku z None = Inr PosInf" and "ssk z None = Inr NaN"
    by (simp_all add: sku_def ssk_def moment_ratio_def)
next
  assume "1 \<le> ndim z \<and> entries z \<noteq> [] \<and> (\<forall>x \<in> set (entries z). x = c)"
  then show "sq z = Inr (Finite 0)" using sq_flat by blast
next
  assume h: "sq z = Inr (Finite s) \<and> 0 < s"
  then have g: "\<not> ndim z < 1" "entries z \<noteq> []"
    by (auto simp add: sq_def split: if_splits)
  with h show "sku z None = Inr (Finite (mean (map (\<lambda>x. (x - zm) ^ 4) (entries z)) / s ^ 4))"
    and "ssk z None = Inr (Finite (mean (map (\<lambda>x. (x - zm) ^ 3) (entries z)) / s ^ 3))"
    by (simp_all add: sku_def ssk_def moment_ratio_def zm_def)
qed

theorem sku_ssk_flat_and_formula_witness:
  "sq \<lparr>shape = [2, 2], entries = [3, 3, 3, 3]\<rparr> = Inr (Finite 0)
   \<and> sku \<lparr>shape = [2, 2], entries = [3, 3, 3, 3]\<rparr> None = Inr PosInf
   \<and> ssk \<lparr>shape = [2, 2], entries = [3, 3, 3, 3]\<rparr> None = Inr NaN
   \<and> sq \<lparr>shape = [2], entries = [1, 3]\<rparr> = Inr (Finite 1)
   \<and> sku \<lparr>shape = [2], entries = [1, 3]\<rparr> None = Inr (Finite 1)
   \<and> ssk \<lparr>shape = [2], entries = [1, 3]\<rparr> None = Inr (Finite 0)"
proof -
  have flat: "sq \<lparr>shape = [2, 2], entries = [3, 3, 3, 3]\<rparr> = Inr (Finite 0)"
    by (simp add: sq_def ndim_def mean_def)
  have rough: "sq \<lparr>shape = [2], entries = [1, 3]\<rparr> = Inr (Finite 1)"
    by (simp add: sq_def ndim_def mean_def)
  from sku_ssk_flat_and_formula [of "\<lparr>shape = [2, 2], entries = [3, 3, 3, 3]\<rparr>" 3 0]
    sku_ssk_flat_and_formula [of "\<lparr>shape = [2], entries = [1, 3]\<rparr>" 0 1] flat rough
  show ?thesis by (simp add: mean_def)
qed

subsection \<open>Sub-format detection and the text parser\<close>

lemma load_triangles_dispatch:
  "load_triangles f32 utf8 to_float data =
     (if 84 \<le> length data \<and> length data = 84 + 50 * uint32_le data 80
      then Inr (map (\<lambda>k. facet_vertices f32 (take 50 (drop (84 + 50 * k) data)))
                  [0..<uint32_le data 80])
      else (case parse_stl_ascii to_float (utf8 data) of
              Inl e \<Rightarrow> Inl FormatError
            | Inr t \<Rightarrow> Inr t))"
  by (simp add: load_triangles_def parse_stl_binary_def Let_def)

lemma ascii_line_malformed:
  assumes "strip l \<noteq> []" and "starts_with_vertex (strip l)"
    and "4 \<le> length (split (strip l))"
    and "to_float (split (strip l) ! 1) = None \<or> to_float (split (strip l) ! 2) = None
         \<or> to_float (split (strip l) ! 3) = None"
  shows "ascii_line to_float l st = st"
proof -
  have "vertex_of_parts to_float (split (strip l)) = None"
    using assms(4) by (auto simp add: vertex_of_parts_def split: option.splits)
  then show ?thesis
    using assms(1,2,3) by (cases st) (simp add: ascii_line_def)
qed

text \<open>
  C4: the built-in loader takes the binary records exactly when the file has at least 84
  bytes and its length is \<open>84 + 50 * count\<close>, \<open>count\<close> being the little-endian unsigned
  32-bit integer at offset 80, and decodes the file as text otherwise.  In the text
  decoding a vertex line with a malformed numeric token leaves the parser state as it
  was, so the result is that of the file without the line; and a text decoding that
  yields no triangle raises \<open>FormatError\<close>.
\<close>

theorem stl_subformat_and_text_errors:
  fixes f32 :: "byte list \<Rightarrow> 'c" and to_float :: "string \<Rightarrow> 'c option" and l :: string
  defines "binary \<equiv> \<lambda>data. 84 \<le> length data \<and> length data = 84 + 50 * uint32_le data 80"
  defines "parts \<equiv> split (strip l)"
  shows "load_triangles f32 utf8 to_float data =
           (if binary data
            then Inr (map (\<lambda>k. facet_vertices f32 (take 50 (drop (84 + 50 * k) data)))
                        [0..<uint32_le data 80])
            else (case parse_stl_ascii to_float (utf8 data) of
                    Inl e \<Rightarrow> Inl FormatError
                  | Inr t \<Rightarrow> Inr t))
       \<and> (strip l \<noteq> [] \<and> starts_with_vertex (strip l) \<and> 4 \<le> length parts
            \<and> (to_float (parts ! 1) = None \<or> to_float (parts ! 2) = None
                \<or> to_float (parts ! 3) = None)
          \<longrightarrow> parse_stl_ascii_lines to_float (ls1 @ l # ls2)
                = parse_stl_ascii_lines to_float (ls1 @ ls2))
       \<and> (\<not> binary data
            \<and> fst (fold (ascii_line to_float) (splitlines (utf8 data)) ([], [])) = []
          \<longrightarrow> load_triangles f32 utf8 to_float data = Inl FormatError)"
proof (intro conjI impI)
  show "load_triangles f32 utf8 to_float data =
           (if binary data
            then Inr (map (\<lambda>k. facet_vertices f32 (take 50 (drop (84 + 50 * k) data)))
                        [0..<uint32_le data 80])
            else (case parse_stl_ascii to_float (utf8 data) of
                    Inl e \<Rightarrow> Inl FormatError
                  | Inr t \<Rightarrow> Inr t))"
    unfolding binary_def by (rule load_triangles_dispatch)
next
  assume "strip l \<noteq> [] \<and> starts_with_vertex (strip l) \<and> 4 \<le> length parts
            \<and> (to_float (parts ! 1) = None \<or> to_float (parts ! 2) = None
                \<or> to_float (parts ! 3) = None)"
  then have "ascii_line to_float l st = st" for st
    unfolding parts_def by (intro ascii_line_malformed) simp_all
  then show "parse_stl_ascii_lines to_float (ls1 @ l # ls2)
                = parse_stl_ascii_lines to_float (ls1 @ ls2)"
    by (simp add: parse_stl_ascii_lines_def)
next
  assume "\<not> binary data
            \<and> fst (fold (ascii_line to_float) (splitlines (utf8 data)) ([], [])) = []"
  then show "load_triangles f32 utf8 to_float data = Inl FormatError"
    unfolding load_triangles_dispatch binary_def
    by (simp add: parse_stl_ascii_def parse_stl_ascii_lines_def)
qed

theorem stl_subformat_and_text_errors_witness:
  "load_triangles (\<lambda>bs. 0 :: real) (map (\<lambda>b. char_of (unat b)))
       (\<lambda>s. if s = ''0'' then Some 0 else if s = ''1'' then Some 1 else None)
       (replicate 84 0) = Inr []
   \<and> parse_stl_ascii_lines (\<lambda>s. if s = ''0'' then Some 0 else if s = ''1'' then Some 1 else None)
       ([''vertex 0 0 0''] @ ''vertex x 0 0'' # [''vertex 1 0 0'', ''vertex 0 1 0''])
     = Inr [((0, 0, 0), (1, 0, 0), (0, 1, 0 :: real))]
   \<and> load_triangles (\<lambda>bs. 0 :: real) (map (\<lambda>b. char_of (unat b)))
       (\<lambda>s. if s = ''0'' then Some 0 else if s = ''1'' then Some 1 else None)
       [115, 111, 108, 105, 100] = Inl FormatError"
proof -
  let ?f32 = "\<lambda>bs :: byte list. 0 :: real"
  let ?utf8 = "map (\<lambda>b :: byte. char_of (unat b))"
  let ?tf = "\<lambda>s. if s = ''0'' then Some (0 :: real) else if s = ''1'' then Some 1 else None"
  have count: "uint32_le (replicate 84 0) 80 = 0"
    by (simp add: uint32_le_def)
  have bad: "strip ''vertex x 0 0'' = ''vertex x 0 0''"
    "split ''vertex x 0 0'' = [''vertex'', ''x'', ''0'', ''0'']"
    "starts_with_vertex ''vertex x 0 0''"
    by (simp_all add: strip_def split_def is_space_def starts_with_vertex_def lower_char_def)
  have rest: "parse_stl_ascii_lines ?tf ([''vertex 0 0 0''] @ [''vertex 1 0 0'', ''vertex 0 1 0''])
      = Inr [((0, 0, 0), (1, 0, 0), (0, 1, 0))]"
    by (simp add: parse_stl_ascii_lines_def ascii_line_def flush_def vertex_of_parts_def
        strip_def split_def is_space_def starts_with_vertex_def lower_char_def)
  have small: "\<not> (84 \<le> length [115, 111, 108, 105, 100 :: byte])" by simp
  have solid: "?utf8 [115, 111, 108, 105, 100] = ''solid''"
    by (simp add: char_of_def bit_Suc_0_iff)
  have none: "fst (fold (ascii_line ?tf) (splitlines (?utf8 [115, 111, 108, 105, 100])) ([], [])) = []"
    unfolding solid
    by (simp add: splitlines_def is_line_break_def ascii_line_def strip_def is_space_def
        starts_with_vertex_def lower_char_def)
  note zero_count = stl_subformat_and_text_errors [where ?'c = real and ?f32.0 = ?f32 and ?utf8.0 = ?utf8
      and to_float = ?tf and data = "replicate 84 0" and l = "''vertex x 0 0''"
      and ?ls1.0 = "[''vertex 0 0 0'']" and ?ls2.0 = "[''vertex 1 0 0'', ''vertex 0 1 0'']"]
  note small_file = stl_subformat_and_text_errors [where ?'c = real and ?f32.0 = ?f32 and ?utf8.0 = ?utf8
      and to_float = ?tf and data = "[115, 111, 108, 105, 100]" and l = "''vertex x 0 0''"
      and ?ls1.0 = "[]" and ?ls2.0 = "[]"]
  have a: "load_triangles ?f32 ?utf8 ?tf (replicate 84 0) = Inr []"
    using zero_count [THEN conjunct1] count by simp
  have b: "parse_stl_ascii_lines ?tf
       ([''vertex 0 0 0''] @ ''vertex x 0 0'' # [''vertex 1 0 0'', ''vertex 0 1 0''])
     = Inr [((0, 0, 0), (1, 0, 0), (0, 1, 0))]"
    using zero_count [THEN conjunct2, THEN conjunct1] bad rest by simp
  have c: "load_triangles ?f32 ?utf8 ?tf [115, 111, 108, 105, 100] = Inl FormatError"
    using small_file [THEN conjunct2, THEN conjunct2] small none by blast
  from a b c show ?thesis by blast
qed

subsection \<open>Vertex merging\<close>

lemma first_index_less:
  assumes "x \<in> set xs"
  shows "first_index xs x < length xs" and "xs ! first_index xs x = x"
  using assms unfolding first_index_def by (induction xs) auto

lemma reshape3_triangles:
  "reshape3 (map h (concat (map triangle_rows ts)))
     = map (\<lambda>t. case t of (p, q, r) \<Rightarrow> (int (h p), int (h q), int (h r))) ts"
  by (induction ts) auto

lemma unique_rows_tol_nodes:
  fixes verts :: "vec3 list" and decimals :: int
  defines "ar \<equiv> map (round_row decimals) verts"
  defines "U \<equiv> sort (remdups ar)"
  shows "fst (unique_rows_tol verts decimals) = map (\<lambda>u. verts ! first_index ar u) U"
    and "snd (unique_rows_tol verts decimals) = map (\<lambda>v. first_index U (round_row decimals v)) verts"
    and "map (round_row decimals) (fst (unique_rows_tol verts decimals)) = U"
proof -
  show n: "fst (unique_rows_tol verts decimals) = map (\<lambda>u. verts ! first_index ar u) U"
    by (simp add: unique_rows_tol_def np_unique_def Let_def ar_def U_def comp_def)
  show "snd (unique_rows_tol verts decimals) = map (\<lambda>v. first_index U (round_row decimals v)) verts"
    by (simp add: unique_rows_tol_def np_unique_def Let_def ar_def U_def comp_def)
  have "round_row decimals (verts ! first_index ar u) = u" if "u \<in> set U" for u
  proof -
    from that have m: "u \<in> set ar" by (simp add: U_def)
    from first_index_less [OF m] show ?thesis by (simp add: ar_def)
  qed
  then show "map (round_row decimals) (fst (unique_rows_tol verts decimals)) = U"
    unfolding n by (simp add: map_idI comp_def)
qed

lemma triangle_rows_in_stream:
  assumes "(p, q, r) \<in> set ts"
  shows "p \<in> set (concat (map triangle_rows ts))" and "q \<in> set (concat (map triangle_rows ts))"
    and "r \<in> set (concat (map triangle_rows ts))"
  using assms by force+

text \<open>
  C2 (as amended): with merging enabled, the node list holds one original vertex for each
  distinct rounded point of the stream, namely the first vertex of the stream with that
  rounded value, and lists them in ascending lexicographic order of the rounded points;
  every face entry indexes a node whose rounded coordinates are those of the triangle's
  vertex.
\<close>

theorem merged_mesh_nodes_and_faces:
  fixes triangles :: "real triangle list" and decimals :: int
  defines "rr \<equiv> round_row decimals"
  defines "verts \<equiv> concat (map triangle_rows triangles)"
  defines "refers \<equiv> \<lambda>nodes v i. 0 \<le> i \<and> nat i < length nodes \<and> rr (nodes ! nat i) = rr v"
  assumes mesh: "mesh_of_triangles triangles True decimals = (nodes, faces)"
  shows "sorted (map rr nodes) \<and> distinct (map rr nodes)
       \<and> set (map rr nodes) = set (map rr verts)
       \<and> (\<forall>m<length nodes. nodes ! m = verts ! first_index (map rr verts) (rr (nodes ! m)))
       \<and> list_all2 (\<lambda>t f. case t of (p, q, r) \<Rightarrow> case f of (i, j, l) \<Rightarrow>
                       refers nodes p i \<and> refers nodes q j \<and> refers nodes r l) triangles faces"
proof -
  let ?ar = "map rr verts"
  let ?U = "sort (remdups ?ar)"
  let ?h = "\<lambda>v. first_index ?U (rr v)"
  note u = unique_rows_tol_nodes [where verts = verts and decimals = decimals, folded rr_def]
  have nodes: "nodes = map (\<lambda>u. verts ! first_index ?ar u) ?U"
    using mesh u(1) by (simp add: mesh_of_triangles_def Let_def verts_def)
  have rounded: "map rr nodes = ?U"
    using mesh u(3) by (simp add: mesh_of_triangles_def Let_def verts_def)
  have faces: "faces = map (\<lambda>t. case t of (p, q, r) \<Rightarrow> (int (?h p), int (?h q), int (?h r))) triangles"
    using mesh u(2) by (simp add: mesh_of_triangles_def Let_def verts_def reshape3_triangles)
  have len: "length nodes = length ?U" using nodes by simp
  have a: "sorted (map rr nodes)" "distinct (map rr nodes)" "set (map rr nodes) = set ?ar"
    unfolding rounded by simp_all
  have b: "nodes ! m = verts ! first_index ?ar (rr (nodes ! m))" if "m < length nodes" for m
  proof -
    have "rr (nodes ! m) = ?U ! m"
      using that rounded by (metis nth_map)
    moreover have "nodes ! m = verts ! first_index ?ar (?U ! m)"
      using that len unfolding nodes by simp
    ultimately show ?thesis by simp
  qed
  have c: "refers nodes v (int (?h v))" if "v \<in> set verts" for v
  proof -
    from that have "rr v \<in> set ?U" by simp
    from first_index_less [OF this] have lt: "?h v < length nodes" and at: "?U ! ?h v = rr v"
      using len by simp_all
    have "rr (nodes ! ?h v) = map rr nodes ! ?h v" using lt by simp
    then have "rr (nodes ! ?h v) = rr v" using at rounded by simp
    then show ?thesis using lt by (simp add: refers_def)
  qed
  have d: "list_all2 (\<lambda>t f. case t of (p, q, r) \<Rightarrow> case f of (i, j, l) \<Rightarrow>
                       refers nodes p i \<and> refers nodes q j \<and> refers nodes r l) triangles faces"
    unfolding faces list_all2_map2 list_all2_same
  proof
    fix t assume t: "t \<in> set triangles"
    obtain p q r where pqr: "t = (p, q, r)" by (cases t)
    from triangle_rows_in_stream [OF t [unfolded pqr]]
    have "p \<in> set verts" "q \<in> set verts" "r \<in> set verts" unfolding verts_def .
    then show "case t of (p, q, r) \<Rightarrow>
        case (case t of (p, q, r) \<Rightarrow> (int (?h p), int (?h q), int (?h r))) of (i, j, l) \<Rightarrow>
          refers nodes p i \<and> refers nodes q j \<and> refers nodes r l"
      unfolding pqr using c by simp
  qed
  from a b d show ?thesis by simp
qed

theorem merged_mesh_nodes_and_faces_witness:
  "mesh_of_triangles [((1, 0, 0), (0, 0, 0), (1 / 10 ^ 13, 0, 0))] True 12
     = ([(0, 0, 0), (1, 0, 0)], [(1, 0, 0)])
   \<and> map (round_row 12) [(0, 0, 0), (1, 0, 0)] = [(0, 0, 0), (1, 0, 0)]
   \<and> sorted ([(0, 0, 0), (1, 0, 0)] :: vec3 list)
   \<and> round_row 12 ([(0, 0, 0), (1, 0, 0)] ! 0) = round_row 12 (1 / 10 ^ 13, 0, 0)"
proof -
  have mesh: "mesh_of_triangles [((1, 0, 0), (0, 0, 0), (1 / 10 ^ 13, 0, 0))] True 12
     = ([(0, 0, 0), (1, 0, 0)], [(1, 0, 0)])"
    by (simp add: mesh_of_triangles_def unique_rows_tol_def np_unique_def first_index_def
        np_round_def rint_def)
  have rounded: "map (round_row 12) [(0, 0, 0), (1, 0, 0)] = [(0, 0, 0), (1, 0, 0)]"
    by (simp add: np_round_def rint_def)
  from merged_mesh_nodes_and_faces [OF mesh] mesh rounded show ?thesis
    by simp
qed

text \<open>
  The stream \<open>(1,0,0), (0,0,0), (10^-13,0,0)\<close> at precision 12: the point seen first is
  listed last, and the third vertex of the triangle is indexed to a node with other
  coordinates.
\<close>

theorem merged_mesh_first_seen_counterexample:
  "map (round_row 12) (fst (mesh_of_triangles [((1, 0, 0), (0, 0, 0), (1 / 10 ^ 13, 0, 0))] True 12))
     \<noteq> first_seen_order (map (round_row 12) [(1, 0, 0), (0, 0, 0), (1 / 10 ^ 13, 0, 0)])
   \<and> fst (mesh_of_triangles [((1, 0, 0), (0, 0, 0), (1 / 10 ^ 13, 0, 0))] True 12) ! 0
     \<noteq> (1 / 10 ^ 13, 0, 0)
   \<and> snd (mesh_of_triangles [((1, 0, 0), (0, 0, 0), (1 / 10 ^ 13, 0, 0))] True 12) = [(1, 0, 0)]"
  by (simp add: mesh_of_triangles_def unique_rows_tol_def np_unique_def first_index_def
      np_round_def rint_def)

end
